theory Spec2Isabelle
  imports Complex_Main "HOL-Library.Multiset"
begin

section \<open>Data model\<close>

text \<open>
  The trading journal stores portfolios and trades in two SQL tables (SQLAlchemy models
  \<^verbatim>\<open>app/models/portfolio.py\<close> and \<^verbatim>\<open>app/models/trade.py\<close>). Python floats are
  modelled as reals with exact arithmetic; a float division by zero raises
  \<^verbatim>\<open>ZeroDivisionError\<close> in Python and is an error value here; rounding error,
  NaN and the infinities are not modelled. Timestamps are integers. The audit columns \<^verbatim>\<open>created_at\<close> and \<^verbatim>\<open>updated_at\<close> are filled by
  the database server and read by no function modelled below; they are left out.
\<close>

datatype TradeType = LONG | SHORT

datatype TradeStatus = OPEN | CLOSED

text \<open>
  Everything a request can end in instead of a value: the three HTTP errors the routers
  raise, and the Python and database exceptions that escape the handlers.
\<close>

datatype error =
    HTTP_400_BAD_REQUEST
  | HTTP_403_FORBIDDEN
  | HTTP_404_NOT_FOUND
  | ZeroDivisionError
  | TypeError
  | IntegrityError

record Portfolio =
  id_portfolio :: nat
  name :: string
  description :: "string option"
  initial_balance :: real
  user_id :: nat

text \<open>A row of table \<^verbatim>\<open>trades\<close>: the \<^verbatim>\<open>nullable=False\<close> columns carry plain values.\<close>

record Trade =
  id_trade :: nat
  portfolio_id :: nat
  symbol :: string
  trade_type :: TradeType
  status :: "TradeStatus option"
  entry_price :: real
  entry_date :: int
  quantity :: real
  exit_price :: "real option"
  exit_date :: "int option"
  profit_loss :: "real option"
  profit_loss_percentage :: "real option"
  trade_notes :: "string option"
  tags :: "string option"
  screenshot_path :: "string option"

text \<open>
  The ORM instance a handler works on between loading a row and committing it:
  \<^verbatim>\<open>setattr\<close> may put \<^verbatim>\<open>None\<close> into any attribute, also into one whose column is
  \<^verbatim>\<open>nullable=False\<close>; the constraint is checked only at commit.
\<close>

record TradeObj =
  o_id :: nat
  o_portfolio_id :: nat
  o_symbol :: "string option"
  o_trade_type :: "TradeType option"
  o_status :: "TradeStatus option"
  o_entry_price :: "real option"
  o_entry_date :: "int option"
  o_quantity :: "real option"
  o_exit_price :: "real option"
  o_exit_date :: "int option"
  o_profit_loss :: "real option"
  o_profit_loss_percentage :: "real option"
  o_notes :: "string option"
  o_tags :: "string option"
  o_screenshot_path :: "string option"

definition load :: "Trade \<Rightarrow> TradeObj" where
  "load t =
     \<lparr> o_id = id_trade t, o_portfolio_id = portfolio_id t, o_symbol = Some (symbol t),
       o_trade_type = Some (trade_type t), o_status = status t,
       o_entry_price = Some (entry_price t), o_entry_date = Some (entry_date t),
       o_quantity = Some (quantity t), o_exit_price = exit_price t,
       o_exit_date = exit_date t, o_profit_loss = profit_loss t,
       o_profit_loss_percentage = profit_loss_percentage t, o_notes = trade_notes t,
       o_tags = tags t, o_screenshot_path = screenshot_path t \<rparr>"

text \<open>
  Writing an instance back: a \<^verbatim>\<open>None\<close> in a \<^verbatim>\<open>nullable=False\<close> column makes
  the commit fail with \<^verbatim>\<open>IntegrityError\<close>.
\<close>

definition flush :: "TradeObj \<Rightarrow> error + Trade" where
  "flush ob =
     (case (o_symbol ob, o_trade_type ob, o_entry_price ob, o_entry_date ob, o_quantity ob) of
        (Some s, Some ty, Some e, Some d, Some q) \<Rightarrow>
          Inr \<lparr> id_trade = o_id ob, portfolio_id = o_portfolio_id ob, symbol = s,
                trade_type = ty, status = o_status ob, entry_price = e, entry_date = d,
                quantity = q, exit_price = o_exit_price ob, exit_date = o_exit_date ob,
                profit_loss = o_profit_loss ob,
                profit_loss_percentage = o_profit_loss_percentage ob, trade_notes = o_notes ob,
                tags = o_tags ob, screenshot_path = o_screenshot_path ob \<rparr>
      | _ \<Rightarrow> Inl IntegrityError)"

subsection \<open>Request schemas\<close>

text \<open>
  Every field of \<^verbatim>\<open>TradeUpdate\<close> is \<^verbatim>\<open>Optional[...] = None\<close>, and
  \<^verbatim>\<open>model_dump(exclude_unset=True)\<close> keeps exactly the fields the request supplied, an
  explicit \<^verbatim>\<open>null\<close> included. A field is therefore unset, or given with a value that
  may be \<^verbatim>\<open>None\<close>.
\<close>

datatype 'a field = Unset | Given 'a

record TradeUpdate =
  u_symbol :: "string option field"
  u_trade_type :: "TradeType option field"
  u_entry_price :: "real option field"
  u_entry_date :: "int option field"
  u_quantity :: "real option field"
  u_exit_price :: "real option field"
  u_exit_date :: "int option field"
  u_status :: "TradeStatus option field"
  u_notes :: "string option field"
  u_tags :: "string option field"

record TradeCreate =
  c_symbol :: string
  c_trade_type :: TradeType
  c_entry_price :: real
  c_entry_date :: int
  c_quantity :: real
  c_notes :: "string option"
  c_tags :: "string option"
  c_portfolio_id :: nat

record TradeClose =
  close_exit_price :: real
  close_exit_date :: int

subsection \<open>The database\<close>

text \<open>The two tables, rows in storage order. Primary keys are unique in a table.\<close>

record db =
  portfolios :: "Portfolio list"
  trades :: "Trade list"

section \<open>Trade operations (\<^verbatim>\<open>app/crud/trade.py\<close>)\<close>

definition calculate_profit_loss :: "TradeObj \<Rightarrow> error + real \<times> real" where
  "calculate_profit_loss trade =
     (case o_exit_price trade of
        None \<Rightarrow> Inr (0, 0)
      | Some x \<Rightarrow>
          (case (o_entry_price trade, o_quantity trade) of
             (Some e, Some q) \<Rightarrow>
               (let pl = (if o_trade_type trade = Some LONG then (x - e) * q
                          else (e - x) * q)
                in if e * q = 0 then Inl ZeroDivisionError
                   else Inr (pl, pl / (e * q) * 100))
           | _ \<Rightarrow> Inl TypeError))"

definition get_trade_by_id :: "db \<Rightarrow> nat \<Rightarrow> Trade option" where
  "get_trade_by_id d trade_id = find (\<lambda>t. id_trade t = trade_id) (trades d)"

text \<open>The commit of a changed instance replaces the row that has its primary key.\<close>

definition store :: "db \<Rightarrow> Trade \<Rightarrow> db" where
  "store d t = d\<lparr>trades := map (\<lambda>r. if id_trade r = id_trade t then t else r) (trades d)\<rparr>"

text \<open>
  \<^verbatim>\<open>id\<close> is an integer primary key: the database gives a new row the largest key in
  the table plus one.
\<close>

definition next_id :: "Trade list \<Rightarrow> nat" where
  "next_id rows = Suc (fold max (map id_trade rows) 0)"

definition create_trade :: "db \<Rightarrow> TradeCreate \<Rightarrow> Trade \<times> db" where
  "create_trade d trade =
     (let db_trade =
            \<lparr> id_trade = next_id (trades d), portfolio_id = c_portfolio_id trade,
              symbol = c_symbol trade, trade_type = c_trade_type trade, status = Some OPEN,
              entry_price = c_entry_price trade, entry_date = c_entry_date trade,
              quantity = c_quantity trade, exit_price = None, exit_date = None,
              profit_loss = None, profit_loss_percentage = None, trade_notes = c_notes trade,
              tags = c_tags trade, screenshot_path = None \<rparr>
      in (db_trade, d\<lparr>trades := trades d @ [db_trade]\<rparr>))"

definition field_value :: "'a option field \<Rightarrow> 'a option \<Rightarrow> 'a option" where
  "field_value f old = (case f of Unset \<Rightarrow> old | Given v \<Rightarrow> v)"

text \<open>The loop \<^verbatim>\<open>for field, value in update_data.items(): setattr(db_trade, field, value)\<close>.\<close>

definition setattrs :: "TradeObj \<Rightarrow> TradeUpdate \<Rightarrow> TradeObj" where
  "setattrs ob u =
     ob\<lparr> o_symbol := field_value (u_symbol u) (o_symbol ob),
         o_trade_type := field_value (u_trade_type u) (o_trade_type ob),
         o_entry_price := field_value (u_entry_price u) (o_entry_price ob),
         o_entry_date := field_value (u_entry_date u) (o_entry_date ob),
         o_quantity := field_value (u_quantity u) (o_quantity ob),
         o_exit_price := field_value (u_exit_price u) (o_exit_price ob),
         o_exit_date := field_value (u_exit_date u) (o_exit_date ob),
         o_status := field_value (u_status u) (o_status ob),
         o_notes := field_value (u_notes u) (o_notes ob),
         o_tags := field_value (u_tags u) (o_tags ob) \<rparr>"

text \<open>
  \<^verbatim>\<open>commit\<close> followed by \<^verbatim>\<open>refresh\<close>: the instance is written and returned, or the
  commit raises and the table stays as it was.
\<close>

definition commit :: "db \<Rightarrow> TradeObj \<Rightarrow> (error + Trade option) \<times> db" where
  "commit d ob =
     (case flush ob of
        Inl e \<Rightarrow> (Inl e, d)
      | Inr t \<Rightarrow> (Inr (Some t), store d t))"

text \<open>
  \<^verbatim>\<open>update_trade\<close> returns \<^verbatim>\<open>None\<close> for an unknown id. An exception leaves the
  session uncommitted, so the database is unchanged.
\<close>

definition update_trade :: "db \<Rightarrow> nat \<Rightarrow> TradeUpdate \<Rightarrow> (error + Trade option) \<times> db" where
  "update_trade d trade_id trade_update =
     (case get_trade_by_id d trade_id of
        None \<Rightarrow> (Inr None, d)
      | Some row \<Rightarrow>
          (let db_trade = setattrs (load row) trade_update
           in if o_exit_price db_trade \<noteq> None
              then (case calculate_profit_loss db_trade of
                      Inl e \<Rightarrow> (Inl e, d)
                    | Inr (pl, pl_pct) \<Rightarrow>
                        commit d (db_trade\<lparr> o_profit_loss := Some pl,
                                            o_profit_loss_percentage := Some pl_pct \<rparr>))
              else commit d db_trade))"

definition close_trade :: "db \<Rightarrow> nat \<Rightarrow> TradeClose \<Rightarrow> (error + Trade option) \<times> db" where
  "close_trade d trade_id trade_close =
     (case get_trade_by_id d trade_id of
        None \<Rightarrow> (Inr None, d)
      | Some row \<Rightarrow>
          (let db_trade = (load row)\<lparr> o_exit_price := Some (close_exit_price trade_close),
                                      o_exit_date := Some (close_exit_date trade_close),
                                      o_status := Some CLOSED \<rparr>
           in case calculate_profit_loss db_trade of
                Inl e \<Rightarrow> (Inl e, d)
              | Inr (pl, pl_pct) \<Rightarrow>
                  commit d (db_trade\<lparr> o_profit_loss := Some pl,
                                      o_profit_loss_percentage := Some pl_pct \<rparr>)))"

definition delete_trade :: "db \<Rightarrow> nat \<Rightarrow> bool \<times> db" where
  "delete_trade d trade_id =
     (case get_trade_by_id d trade_id of
        None \<Rightarrow> (False, d)
      | Some row \<Rightarrow> (True, d\<lparr>trades := filter (\<lambda>r. id_trade r \<noteq> trade_id) (trades d)\<rparr>))"

section \<open>Listing trades (\<^verbatim>\<open>get_portfolio_trades\<close>)\<close>

text \<open>
  \<^verbatim>\<open>order_by(Trade.entry_date.desc())\<close>: the rows sorted by entry date, latest first.
  The database is SQLite (\<^verbatim>\<open>app/database.py\<close>), whose sorter returns rows with
  equal keys in the order of the table scan, which is the order of the rows in the
  table; the sort is therefore the stable one.
\<close>

definition order_by_entry_date_desc :: "Trade list \<Rightarrow> Trade list" where
  "order_by_entry_date_desc rows = sort_key (\<lambda>t. - entry_date t) rows"

text \<open>
  The query is \<^verbatim>\<open>select(Trade).where(portfolio_id == ...)\<close>, a second \<^verbatim>\<open>where\<close> on
  the status when one is given (both members of \<^verbatim>\<open>TradeStatus\<close> are non-empty strings,
  so \<^verbatim>\<open>if status:\<close> holds for each), and the ordering.
\<close>

definition get_portfolio_trades :: "db \<Rightarrow> nat \<Rightarrow> TradeStatus option \<Rightarrow> Trade list" where
  "get_portfolio_trades d pid st =
     (let query = filter (\<lambda>t. portfolio_id t = pid) (trades d);
          query = (case st of
                     Some s \<Rightarrow> filter (\<lambda>t. status t = Some s) query
                   | None \<Rightarrow> query)
      in order_by_entry_date_desc query)"

section \<open>Portfolio operations (\<^verbatim>\<open>app/crud/portfolio.py\<close>)\<close>

definition get_portfolio_by_id :: "db \<Rightarrow> nat \<Rightarrow> Portfolio option" where
  "get_portfolio_by_id d pid = find (\<lambda>p. id_portfolio p = pid) (portfolios d)"

text \<open>
  \<^verbatim>\<open>Portfolio.trades\<close> is declared with \<^verbatim>\<open>cascade="all, delete-orphan"\<close>: deleting the
  portfolio instance deletes the trades of its collection, the rows whose foreign key is
  the portfolio's id, in the same commit.
\<close>

definition delete_portfolio :: "db \<Rightarrow> nat \<Rightarrow> bool \<times> db" where
  "delete_portfolio d pid =
     (case get_portfolio_by_id d pid of
        None \<Rightarrow> (False, d)
      | Some db_portfolio \<Rightarrow>
          (True,
           d\<lparr> portfolios := filter (\<lambda>p. id_portfolio p \<noteq> id_portfolio db_portfolio) (portfolios d),
              trades := filter (\<lambda>t. portfolio_id t \<noteq> id_portfolio db_portfolio) (trades d) \<rparr>))"

section \<open>Routers (\<^verbatim>\<open>app/routers/trades.py\<close>)\<close>

definition verify_portfolio_ownership :: "db \<Rightarrow> nat \<Rightarrow> nat \<Rightarrow> error + Portfolio" where
  "verify_portfolio_ownership d pid uid =
     (case get_portfolio_by_id d pid of
        None \<Rightarrow> Inl HTTP_404_NOT_FOUND
      | Some portfolio \<Rightarrow>
          if user_id portfolio \<noteq> uid then Inl HTTP_403_FORBIDDEN else Inr portfolio)"

text \<open>
  The handlers take the current user's id. Each has the name of the CRUD function it
  calls, so the handlers carry the prefix \<open>route\<close>.
\<close>

definition route_get_portfolio_trades ::
  "db \<Rightarrow> nat \<Rightarrow> nat \<Rightarrow> TradeStatus option \<Rightarrow> error + Trade list" where
  "route_get_portfolio_trades d uid pid st =
     (case verify_portfolio_ownership d pid uid of
        Inl e \<Rightarrow> Inl e
      | Inr _ \<Rightarrow> Inr (get_portfolio_trades d pid st))"

definition route_create_trade :: "db \<Rightarrow> nat \<Rightarrow> TradeCreate \<Rightarrow> (error + Trade) \<times> db" where
  "route_create_trade d uid trade =
     (case verify_portfolio_ownership d (c_portfolio_id trade) uid of
        Inl e \<Rightarrow> (Inl e, d)
      | Inr _ \<Rightarrow> (case create_trade d trade of (db_trade, d') \<Rightarrow> (Inr db_trade, d')))"

definition route_update_trade ::
  "db \<Rightarrow> nat \<Rightarrow> nat \<Rightarrow> TradeUpdate \<Rightarrow> (error + Trade option) \<times> db" where
  "route_update_trade d uid trade_id trade_update =
     (case get_trade_by_id d trade_id of
        None \<Rightarrow> (Inl HTTP_404_NOT_FOUND, d)
      | Some trade \<Rightarrow>
          (case verify_portfolio_ownership d (portfolio_id trade) uid of
             Inl e \<Rightarrow> (Inl e, d)
           | Inr _ \<Rightarrow> update_trade d trade_id trade_update))"

definition route_close_trade ::
  "db \<Rightarrow> nat \<Rightarrow> nat \<Rightarrow> TradeClose \<Rightarrow> (error + Trade option) \<times> db" where
  "route_close_trade d uid trade_id trade_close =
     (case get_trade_by_id d trade_id of
        None \<Rightarrow> (Inl HTTP_404_NOT_FOUND, d)
      | Some trade \<Rightarrow>
          (case verify_portfolio_ownership d (portfolio_id trade) uid of
             Inl e \<Rightarrow> (Inl e, d)
           | Inr _ \<Rightarrow>
               if status trade = Some CLOSED then (Inl HTTP_400_BAD_REQUEST, d)
               else close_trade d trade_id trade_close))"

definition route_delete_trade :: "db \<Rightarrow> nat \<Rightarrow> nat \<Rightarrow> (error + unit) \<times> db" where
  "route_delete_trade d uid trade_id =
     (case get_trade_by_id d trade_id of
        None \<Rightarrow> (Inl HTTP_404_NOT_FOUND, d)
      | Some trade \<Rightarrow>
          (case verify_portfolio_ownership d (portfolio_id trade) uid of
             Inl e \<Rightarrow> (Inl e, d)
           | Inr _ \<Rightarrow> (Inr (), snd (delete_trade d trade_id))))"

subsection \<open>Sequences of requests\<close>

text \<open>
  The trade requests of the API, each with the id of the user who sends it, and the
  database after a sequence of them. A request that fails leaves the database as it was.
\<close>

datatype request =
    Create nat TradeCreate
  | Edit nat nat TradeUpdate
  | Close nat nat TradeClose
  | Delete nat nat

fun handle :: "db \<Rightarrow> request \<Rightarrow> db" where
  "handle d (Create uid trade) = snd (route_create_trade d uid trade)"
| "handle d (Edit uid trade_id trade_update) = snd (route_update_trade d uid trade_id trade_update)"
| "handle d (Close uid trade_id trade_close) = snd (route_close_trade d uid trade_id trade_close)"
| "handle d (Delete uid trade_id) = snd (route_delete_trade d uid trade_id)"

definition run :: "db \<Rightarrow> request list \<Rightarrow> db" where
  "run d rs = foldl handle d rs"

text \<open>The derived pair is present exactly when the exit price is.\<close>

definition pl_consistent :: "Trade \<Rightarrow> bool" where
  "pl_consistent t =
     ((profit_loss t \<noteq> None) = (exit_price t \<noteq> None) \<and>
      (profit_loss_percentage t \<noteq> None) = (exit_price t \<noteq> None))"

text \<open>An edit whose body has \<^verbatim>\<open>"exit_price": null\<close>.\<close>

fun nulls_exit_price :: "request \<Rightarrow> bool" where
  "nulls_exit_price (Edit uid trade_id trade_update) = (u_exit_price trade_update = Given None)"
| "nulls_exit_price _ = False"

section \<open>Analytics (\<^verbatim>\<open>app/routers/analytics.py\<close>)\<close>

text \<open>
  \<^verbatim>\<open>round(x, 2)\<close> returns the float with two decimals nearest to the float \<open>x\<close>. The
  model computes the argument exactly, and the float the code rounds differs from that
  in the last bits, which decide the direction when the exact argument lies halfway
  between two neighbours (\<^verbatim>\<open>round(23 / 160 * 100, 2)\<close> is 14.37, \<^verbatim>\<open>round(14.375, 2)\<close>
  is 14.38). So \<open>round2 x y\<close> says that \<open>y\<close> is a value the call can return for the
  argument \<open>x\<close>: \<open>y\<close> has two decimals and is at most 0.005 away from \<open>x\<close>. Off the
  halfway points exactly one \<open>y\<close> qualifies.
\<close>

definition round2 :: "real \<Rightarrow> real \<Rightarrow> bool" where
  "round2 x y = (y * 100 = of_int \<lfloor>y * 100\<rfloor> \<and> \<bar>y - x\<bar> \<le> 1 / 200)"

text \<open>The expression \<^verbatim>\<open>t.profit_loss or 0\<close>.\<close>

definition pl_or_0 :: "Trade \<Rightarrow> real" where
  "pl_or_0 t = (case profit_loss t of None \<Rightarrow> 0 | Some v \<Rightarrow> v)"

text \<open>
  \<^verbatim>\<open>sum(t.profit_loss for t in ts)\<close>, without \<^verbatim>\<open>or 0\<close>: adding \<^verbatim>\<open>None\<close> to the
  running total raises \<^verbatim>\<open>TypeError\<close>.
\<close>

primrec py_sum :: "real option list \<Rightarrow> real \<Rightarrow> error + real" where
  "py_sum [] acc = Inr acc"
| "py_sum (v # vs) acc =
     (case v of None \<Rightarrow> Inl TypeError | Some x \<Rightarrow> py_sum vs (acc + x))"

definition sum_profit_loss :: "Trade list \<Rightarrow> error + real" where
  "sum_profit_loss ts = py_sum (map profit_loss ts) 0"

text \<open>
  \<^verbatim>\<open>max(ts, key=...)\<close> and \<^verbatim>\<open>min(ts, key=...)\<close> on a non-empty list: the first
  element with the largest (smallest) key.
\<close>

definition py_max :: "Trade \<Rightarrow> Trade list \<Rightarrow> Trade" where
  "py_max t ts = fold (\<lambda>x best. if pl_or_0 best < pl_or_0 x then x else best) ts t"

definition py_min :: "Trade \<Rightarrow> Trade list \<Rightarrow> Trade" where
  "py_min t ts = fold (\<lambda>x best. if pl_or_0 x < pl_or_0 best then x else best) ts t"

record TradeSummary =
  s_id :: nat
  s_symbol :: string
  s_profit_loss :: real

text \<open>
  \<open>summary t s\<close>: \<open>s\<close> is a dictionary the code can build for the trade \<open>t\<close>, with
  \<^verbatim>\<open>round(t.profit_loss or 0, 2)\<close> as its \<open>profit_loss\<close>.
\<close>

definition summary :: "Trade \<Rightarrow> TradeSummary \<Rightarrow> bool" where
  "summary t s =
     (s_id s = id_trade t \<and> s_symbol s = symbol t \<and> round2 (pl_or_0 t) (s_profit_loss s))"

record PortfolioAnalytics =
  a_portfolio_id :: nat
  a_portfolio_name :: string
  total_trades :: nat
  total_profit_loss :: real
  win_rate :: real
  average_profit_loss :: real
  best_trade :: "TradeSummary option"
  worst_trade :: "TradeSummary option"
  total_wins :: nat
  total_losses :: nat
  average_win :: real
  average_loss :: real
  profit_factor :: real

text \<open>The rows both analytics queries select: the portfolio's trades with status CLOSED.\<close>

definition select_closed_trades :: "db \<Rightarrow> nat \<Rightarrow> Trade list" where
  "select_closed_trades d pid =
     filter (\<lambda>t. portfolio_id t = pid \<and> status t = Some CLOSED) (trades d)"

text \<open>
  The body of \<^verbatim>\<open>get_portfolio_analytics\<close> after the query, as the relation between
  the closed trades and a result \<open>r\<close> the request can end in: an error, or the
  dictionary returned. The two averages evaluate their sum only when the count is
  positive; \<^verbatim>\<open>total_win_amount\<close> and \<^verbatim>\<open>total_loss_amount\<close> always evaluate theirs.
  \<open>hd\<close> and \<open>tl\<close> are applied to the non-empty list only.
\<close>

definition portfolio_statistics ::
  "nat \<Rightarrow> string \<Rightarrow> Trade list \<Rightarrow> error + PortfolioAnalytics \<Rightarrow> bool" where
  "portfolio_statistics pid pname closed_trades r =
     (let n = length closed_trades
      in if n = 0
         then r = Inr \<lparr> a_portfolio_id = pid, a_portfolio_name = pname, total_trades = 0,
                        total_profit_loss = 0, win_rate = 0, average_profit_loss = 0,
                        best_trade = None, worst_trade = None, total_wins = 0,
                        total_losses = 0, average_win = 0, average_loss = 0,
                        profit_factor = 0 \<rparr>
         else
           (let total_pl = sum_list (map pl_or_0 closed_trades);
                winning_trades = filter (\<lambda>t. 0 < pl_or_0 t) closed_trades;
                losing_trades = filter (\<lambda>t. pl_or_0 t \<le> 0) closed_trades;
                wins = length winning_trades;
                losses = length losing_trades;
                rate = (if 0 < n then real wins / real n * 100 else 0);
                avg_pl = (if 0 < n then total_pl / real n else 0)
            in case (if 0 < wins
                     then (case sum_profit_loss winning_trades of
                             Inl e \<Rightarrow> Inl e | Inr s \<Rightarrow> Inr (s / real wins))
                     else Inr 0) of
                 Inl e \<Rightarrow> r = Inl e
               | Inr avg_win \<Rightarrow>
                   (case (if 0 < losses
                          then (case sum_profit_loss losing_trades of
                                  Inl e \<Rightarrow> Inl e | Inr s \<Rightarrow> Inr (s / real losses))
                          else Inr 0) of
                      Inl e \<Rightarrow> r = Inl e
                    | Inr avg_loss \<Rightarrow>
                        (case sum_profit_loss winning_trades of
                           Inl e \<Rightarrow> r = Inl e
                         | Inr total_win_amount \<Rightarrow>
                             (case sum_profit_loss losing_trades of
                                Inl e \<Rightarrow> r = Inl e
                              | Inr loss_sum \<Rightarrow>
                                  (let total_loss_amount = \<bar>loss_sum\<bar>;
                                       factor = (if 0 < total_loss_amount
                                                 then total_win_amount / total_loss_amount
                                                 else 0);
                                       best = py_max (hd closed_trades) (tl closed_trades);
                                       worst = py_min (hd closed_trades) (tl closed_trades)
                                   in case r of
                                        Inl e \<Rightarrow> False
                                      | Inr a \<Rightarrow>
                                          a_portfolio_id a = pid \<and>
                                          a_portfolio_name a = pname \<and>
                                          total_trades a = n \<and>
                                          round2 total_pl (total_profit_loss a) \<and>
                                          round2 rate (win_rate a) \<and>
                                          round2 avg_pl (average_profit_loss a) \<and>
                                          (case best_trade a of
                                             None \<Rightarrow> False | Some s \<Rightarrow> summary best s) \<and>
                                          (case worst_trade a of
                                             None \<Rightarrow> False | Some s \<Rightarrow> summary worst s) \<and>
                                          total_wins a = wins \<and>
                                          total_losses a = losses \<and>
                                          round2 avg_win (average_win a) \<and>
                                          round2 avg_loss (average_loss a) \<and>
                                          round2 factor (profit_factor a)))))))"

definition get_portfolio_analytics ::
  "db \<Rightarrow> nat \<Rightarrow> nat \<Rightarrow> error + PortfolioAnalytics \<Rightarrow> bool" where
  "get_portfolio_analytics d uid pid r =
     (case verify_portfolio_ownership d pid uid of
        Inl e \<Rightarrow> r = Inl e
      | Inr portfolio \<Rightarrow>
          portfolio_statistics pid (name portfolio) (select_closed_trades d pid) r)"

subsection \<open>Per-symbol breakdown\<close>

text \<open>
  \<^verbatim>\<open>symbol_stats\<close> is a dictionary from symbol to a dictionary of counters; a Python
  dictionary keeps its keys in insertion order, so it is a list of pairs with distinct
  keys. The key \<^verbatim>\<open>win_rate\<close> is absent until the second loop adds it.
\<close>

record SymbolStats =
  g_symbol :: string
  g_total_trades :: nat
  g_total_profit_loss :: real
  g_wins :: nat
  g_losses :: nat
  g_win_rate :: "real option"

primrec modify :: "string \<Rightarrow> (SymbolStats \<Rightarrow> SymbolStats) \<Rightarrow> (string \<times> SymbolStats) list
    \<Rightarrow> (string \<times> SymbolStats) list" where
  "modify k f [] = []"
| "modify k f (p # ps) = (if fst p = k then (k, f (snd p)) # ps else p # modify k f ps)"

definition count_trade :: "Trade \<Rightarrow> (string \<times> SymbolStats) list \<Rightarrow> (string \<times> SymbolStats) list" where
  "count_trade trade symbol_stats =
     (let sym = symbol trade;
          stats = (if sym \<notin> fst ` set symbol_stats
                   then symbol_stats @
                        [(sym, \<lparr> g_symbol = sym, g_total_trades = 0, g_total_profit_loss = 0,
                                 g_wins = 0, g_losses = 0, g_win_rate = None \<rparr>)]
                   else symbol_stats)
      in modify sym
           (\<lambda>g. let g = g\<lparr> g_total_trades := g_total_trades g + 1,
                             g_total_profit_loss := g_total_profit_loss g + pl_or_0 trade \<rparr>
                 in if 0 < pl_or_0 trade then g\<lparr>g_wins := g_wins g + 1\<rparr>
                    else g\<lparr>g_losses := g_losses g + 1\<rparr>)
           stats)"

text \<open>
  The second loop, for one group: \<open>finish_group g g'\<close> says that \<open>g'\<close> is a
  dictionary the loop can leave for the counters \<open>g\<close>, with the rounded win rate added
  and the total rounded.
\<close>

definition finish_group :: "SymbolStats \<Rightarrow> SymbolStats \<Rightarrow> bool" where
  "finish_group g g' =
     (g_symbol g' = g_symbol g \<and> g_total_trades g' = g_total_trades g \<and>
      g_wins g' = g_wins g \<and> g_losses g' = g_losses g \<and>
      (case g_win_rate g' of
         None \<Rightarrow> False
       | Some w \<Rightarrow>
           if 0 < g_total_trades g
           then round2 (real (g_wins g) / real (g_total_trades g) * 100) w
           else w = 0) \<and>
      round2 (g_total_profit_loss g) (g_total_profit_loss g'))"

definition symbol_statistics :: "Trade list \<Rightarrow> SymbolStats list \<Rightarrow> bool" where
  "symbol_statistics closed_trades gs =
     list_all2 finish_group (map snd (fold count_trade closed_trades [])) gs"

definition get_analytics_by_symbol ::
  "db \<Rightarrow> nat \<Rightarrow> nat \<Rightarrow> error + SymbolStats list \<Rightarrow> bool" where
  "get_analytics_by_symbol d uid pid r =
     (case verify_portfolio_ownership d pid uid of
        Inl e \<Rightarrow> r = Inl e
      | Inr _ \<Rightarrow>
          (case r of
             Inl e \<Rightarrow> False
           | Inr gs \<Rightarrow> symbol_statistics (select_closed_trades d pid) gs))"

section \<open>Example data\<close>

text \<open>
  A portfolio of user 7 with two open trades entered at the same time, the second with
  entry price 0; and a portfolio of the same user with three closed trades, one winner
  and two losers.
\<close>

definition portfolio_swing :: Portfolio where
  "portfolio_swing =
     \<lparr> id_portfolio = 1, name = ''swing'', description = None, initial_balance = 1000,
       user_id = 7 \<rparr>"

definition portfolio_intraday :: Portfolio where
  "portfolio_intraday =
     \<lparr> id_portfolio = 2, name = ''intraday'', description = None, initial_balance = 0,
       user_id = 7 \<rparr>"

definition trade_reliance :: Trade where
  "trade_reliance =
     \<lparr> id_trade = 1, portfolio_id = 1, symbol = ''RELIANCE'', trade_type = LONG,
       status = Some OPEN, entry_price = 100, entry_date = 5, quantity = 10,
       exit_price = None, exit_date = None, profit_loss = None,
       profit_loss_percentage = None, trade_notes = None, tags = None,
       screenshot_path = None \<rparr>"

definition trade_free :: Trade where
  "trade_free =
     \<lparr> id_trade = 2, portfolio_id = 1, symbol = ''TCS'', trade_type = SHORT,
       status = Some OPEN, entry_price = 0, entry_date = 5, quantity = 10,
       exit_price = None, exit_date = None, profit_loss = None,
       profit_loss_percentage = None, trade_notes = None, tags = None,
       screenshot_path = None \<rparr>"

definition closed_trade :: "nat \<Rightarrow> string \<Rightarrow> real \<Rightarrow> Trade" where
  "closed_trade i s pl =
     \<lparr> id_trade = i, portfolio_id = 2, symbol = s, trade_type = LONG,
       status = Some CLOSED, entry_price = 100, entry_date = 1, quantity = 1,
       exit_price = Some (100 + pl), exit_date = Some 2, profit_loss = Some pl,
       profit_loss_percentage = Some pl, trade_notes = None, tags = None,
       screenshot_path = None \<rparr>"

definition journal :: db where
  "journal =
     \<lparr> portfolios = [portfolio_swing, portfolio_intraday],
       trades = [trade_reliance, trade_free,
                 closed_trade 3 ''INFY'' 1, closed_trade 4 ''INFY'' (- 1),
                 closed_trade 5 ''TCS'' (- 2)] \<rparr>"

definition order_reliance :: TradeCreate where
  "order_reliance =
     \<lparr> c_symbol = ''RELIANCE'', c_trade_type = LONG, c_entry_price = 100, c_entry_date = 5,
       c_quantity = 10, c_notes = None, c_tags = None, c_portfolio_id = 1 \<rparr>"

definition at_120 :: TradeClose where
  "at_120 = \<lparr> close_exit_price = 120, close_exit_date = 9 \<rparr>"

definition no_change :: TradeUpdate where
  "no_change =
     \<lparr> u_symbol = Unset, u_trade_type = Unset, u_entry_price = Unset, u_entry_date = Unset,
       u_quantity = Unset, u_exit_price = Unset, u_exit_date = Unset, u_status = Unset,
       u_notes = Unset, u_tags = Unset \<rparr>"

text \<open>The same two portfolios before any trade is entered.\<close>

definition journal_new :: db where
  "journal_new = \<lparr> portfolios = [portfolio_swing, portfolio_intraday], trades = [] \<rparr>"

text \<open>The example journal with a third trade of the first portfolio, entered later.\<close>

definition trade_late :: Trade where
  "trade_late = trade_reliance\<lparr>id_trade := 8, entry_date := 9\<rparr>"

definition journal_late :: db where
  "journal_late = journal\<lparr>trades := trades journal @ [trade_late]\<rparr>"

text \<open>
  A ledger for the analytics: the second portfolio has the three closed trades and one
  open trade, and the first portfolio has a closed trade of its own.
\<close>

definition ledger :: db where
  "ledger =
     \<lparr> portfolios = [portfolio_swing, portfolio_intraday],
       trades = [closed_trade 3 ''INFY'' 1,
                 trade_reliance\<lparr>id_trade := 6, portfolio_id := 2\<rparr>,
                 closed_trade 4 ''INFY'' (- 1),
                 (closed_trade 7 ''WIPRO'' 4)\<lparr>portfolio_id := 1\<rparr>,
                 closed_trade 5 ''TCS'' (- 2)] \<rparr>"

text \<open>What the analytics report for the second portfolio of the ledger.\<close>

definition ledger_report :: PortfolioAnalytics where
  "ledger_report =
     \<lparr> a_portfolio_id = 2, a_portfolio_name = ''intraday'', total_trades = 3,
       total_profit_loss = - 2, win_rate = 3333 / 100, average_profit_loss = - 67 / 100,
       best_trade = Some \<lparr> s_id = 3, s_symbol = ''INFY'', s_profit_loss = 1 \<rparr>,
       worst_trade = Some \<lparr> s_id = 5, s_symbol = ''TCS'', s_profit_loss = - 2 \<rparr>,
       total_wins = 1, total_losses = 2, average_win = 1, average_loss = - 3 / 2,
       profit_factor = 33 / 100 \<rparr>"

definition ledger_groups :: "SymbolStats list" where
  "ledger_groups =
     [\<lparr> g_symbol = ''INFY'', g_total_trades = 2, g_total_profit_loss = 0, g_wins = 1,
         g_losses = 1, g_win_rate = Some 50 \<rparr>,
      \<lparr> g_symbol = ''TCS'', g_total_trades = 1, g_total_profit_loss = - 2, g_wins = 0,
         g_losses = 1, g_win_rate = Some 0 \<rparr>]"

text \<open>
  The example journal after the edit that sets the status of its first trade to CLOSED,
  and the breakdown of the first portfolio then.
\<close>

definition journal_status_closed :: db where
  "journal_status_closed = run journal [Edit 7 1 (no_change\<lparr>u_status := Given (Some CLOSED)\<rparr>)]"

definition reliance_group :: SymbolStats where
  "reliance_group =
     \<lparr> g_symbol = ''RELIANCE'', g_total_trades = 1, g_total_profit_loss = 0, g_wins = 0,
       g_losses = 1, g_win_rate = Some 0 \<rparr>"

section \<open>Auxiliary notions\<close>

definition all_consistent :: "db \<Rightarrow> bool" where
  "all_consistent d = (\<forall>t \<in> set (trades d). pl_consistent t)"

text \<open>The sum of \<open>total_trades\<close> over the groups of \<^verbatim>\<open>symbol_stats\<close>.\<close>

definition totals :: "(string \<times> SymbolStats) list \<Rightarrow> nat" where
  "totals stats = sum_list (map (\<lambda>p. g_total_trades (snd p)) stats)"

text \<open>The three updates \<open>count_trade\<close> makes to the group of the trade's symbol.\<close>

definition bump :: "Trade \<Rightarrow> SymbolStats \<Rightarrow> SymbolStats" where
  "bump trade g =
     (let g = g\<lparr> g_total_trades := g_total_trades g + 1,
                 g_total_profit_loss := g_total_profit_loss g + pl_or_0 trade \<rparr>
      in if 0 < pl_or_0 trade then g\<lparr>g_wins := g_wins g + 1\<rparr>
         else g\<lparr>g_losses := g_losses g + 1\<rparr>)"

definition groups_ok :: "string set \<Rightarrow> (string \<times> SymbolStats) list \<Rightarrow> bool" where
  "groups_ok S stats =
     (\<forall>p \<in> set stats. 1 \<le> g_total_trades (snd p) \<and> g_symbol (snd p) \<in> S)"

text \<open>
  Rounding to two decimals with a halfway case going to the even neighbour: one value
  that \<open>round2\<close> admits for every argument.
\<close>

definition round_half_even :: "real \<Rightarrow> int" where
  "round_half_even x =
     (let f = \<lfloor>x\<rfloor>; r = x - of_int f
      in if r < 1 / 2 then f
         else if 1 / 2 < r then f + 1
         else if even f then f else f + 1)"

definition nearest2 :: "real \<Rightarrow> real" where
  "nearest2 x = of_int (round_half_even (x * 100)) / 100"

text \<open>
  The errors a handler raises as \<^verbatim>\<open>HTTPException\<close>, as opposed to the exceptions that
  leave a handler uncaught (the application registers no exception handler).
\<close>

fun raised_by_handler :: "error \<Rightarrow> bool" where
  "raised_by_handler HTTP_400_BAD_REQUEST = True"
| "raised_by_handler HTTP_403_FORBIDDEN = True"
| "raised_by_handler HTTP_404_NOT_FOUND = True"
| "raised_by_handler ZeroDivisionError = False"
| "raised_by_handler TypeError = False"
| "raised_by_handler IntegrityError = False"

text \<open>
  What \<open>portfolio_statistics\<close> asks of a returned dictionary when every sum is
  defined, and the dictionary with every rounded value the nearest one.
\<close>

definition report_of :: "nat \<Rightarrow> string \<Rightarrow> Trade list \<Rightarrow> PortfolioAnalytics \<Rightarrow> bool" where
  "report_of pid pname ts a =
     (a_portfolio_id a = pid \<and> a_portfolio_name a = pname \<and> total_trades a = length ts \<and>
      round2 (sum_list (map pl_or_0 ts)) (total_profit_loss a) \<and>
      round2 (real (length (filter (\<lambda>t. 0 < pl_or_0 t) ts)) / real (length ts) * 100)
        (win_rate a) \<and>
      round2 (sum_list (map pl_or_0 ts) / real (length ts)) (average_profit_loss a) \<and>
      (case best_trade a of None \<Rightarrow> False | Some s \<Rightarrow> summary (py_max (hd ts) (tl ts)) s) \<and>
      (case worst_trade a of None \<Rightarrow> False | Some s \<Rightarrow> summary (py_min (hd ts) (tl ts)) s) \<and>
      total_wins a = length (filter (\<lambda>t. 0 < pl_or_0 t) ts) \<and>
      total_losses a = length (filter (\<lambda>t. pl_or_0 t \<le> 0) ts) \<and>
      round2 (if 0 < length (filter (\<lambda>t. 0 < pl_or_0 t) ts)
              then sum_list (map pl_or_0 (filter (\<lambda>t. 0 < pl_or_0 t) ts))
                   / real (length (filter (\<lambda>t. 0 < pl_or_0 t) ts))
              else 0) (average_win a) \<and>
      round2 (if 0 < length (filter (\<lambda>t. pl_or_0 t \<le> 0) ts)
              then sum_list (map pl_or_0 (filter (\<lambda>t. pl_or_0 t \<le> 0) ts))
                   / real (length (filter (\<lambda>t. pl_or_0 t \<le> 0) ts))
              else 0) (average_loss a) \<and>
      round2 (if 0 < \<bar>sum_list (map pl_or_0 (filter (\<lambda>t. pl_or_0 t \<le> 0) ts))\<bar>
              then sum_list (map pl_or_0 (filter (\<lambda>t. 0 < pl_or_0 t) ts))
                   / \<bar>sum_list (map pl_or_0 (filter (\<lambda>t. pl_or_0 t \<le> 0) ts))\<bar>
              else 0) (profit_factor a))"

definition nearest_summary :: "Trade \<Rightarrow> TradeSummary" where
  "nearest_summary t =
     \<lparr> s_id = id_trade t, s_symbol = symbol t, s_profit_loss = nearest2 (pl_or_0 t) \<rparr>"

definition nearest_report :: "nat \<Rightarrow> string \<Rightarrow> Trade list \<Rightarrow> PortfolioAnalytics" where
  "nearest_report pid pname ts =
     \<lparr> a_portfolio_id = pid, a_portfolio_name = pname, total_trades = length ts,
       total_profit_loss = nearest2 (sum_list (map pl_or_0 ts)),
       win_rate = nearest2 (real (length (filter (\<lambda>t. 0 < pl_or_0 t) ts))
                            / real (length ts) * 100),
       average_profit_loss = nearest2 (sum_list (map pl_or_0 ts) / real (length ts)),
       best_trade = Some (nearest_summary (py_max (hd ts) (tl ts))),
       worst_trade = Some (nearest_summary (py_min (hd ts) (tl ts))),
       total_wins = length (filter (\<lambda>t. 0 < pl_or_0 t) ts),
       total_losses = length (filter (\<lambda>t. pl_or_0 t \<le> 0) ts),
       average_win =
         nearest2 (if 0 < length (filter (\<lambda>t. 0 < pl_or_0 t) ts)
                   then sum_list (map pl_or_0 (filter (\<lambda>t. 0 < pl_or_0 t) ts))
                        / real (length (filter (\<lambda>t. 0 < pl_or_0 t) ts))
                   else 0),
       average_loss =
         nearest2 (if 0 < length (filter (\<lambda>t. pl_or_0 t \<le> 0) ts)
                   then sum_list (map pl_or_0 (filter (\<lambda>t. pl_or_0 t \<le> 0) ts))
                        / real (length (filter (\<lambda>t. pl_or_0 t \<le> 0) ts))
                   else 0),
       profit_factor =
         nearest2 (if 0 < \<bar>sum_list (map pl_or_0 (filter (\<lambda>t. pl_or_0 t \<le> 0) ts))\<bar>
                   then sum_list (map pl_or_0 (filter (\<lambda>t. 0 < pl_or_0 t) ts))
                        / \<bar>sum_list (map pl_or_0 (filter (\<lambda>t. pl_or_0 t \<le> 0) ts))\<bar>
                   else 0) \<rparr>"

definition nearest_group :: "SymbolStats \<Rightarrow> SymbolStats" where
  "nearest_group g =
     g\<lparr> g_win_rate := Some (if 0 < g_total_trades g
                             then nearest2 (real (g_wins g) / real (g_total_trades g) * 100)
                             else 0),
        g_total_profit_loss := nearest2 (g_total_profit_loss g) \<rparr>"

text \<open>The primary keys ascend along the table.\<close>

definition ids_ascending :: "db \<Rightarrow> bool" where
  "ids_ascending d = sorted_wrt (<) (map id_trade (trades d))"

section \<open>The profit and loss calculator\<close>

lemma flush_load: "flush (load t) = Inr t"
  by (simp add: flush_def load_def)

text \<open>
  Claim C1, as the code has it. For a trade without exit price the calculator returns the
  pair (0, 0). For a trade with exit price \<open>x\<close> and \<open>entry_price * quantity \<noteq> 0\<close> it
  returns the amount \<open>(x - entry_price) * quantity\<close> for LONG and
  \<open>(entry_price - x) * quantity\<close> for SHORT, with the percentage
  \<open>amount / (entry_price * quantity) * 100\<close>. For a trade with exit price and
  \<open>entry_price * quantity = 0\<close> it returns nothing: the division raises
  \<^verbatim>\<open>ZeroDivisionError\<close>.
\<close>

theorem calculate_profit_loss_spec:
  "calculate_profit_loss (load t) =
     (case exit_price t of
        None \<Rightarrow> Inr (0, 0)
      | Some x \<Rightarrow>
          if entry_price t * quantity t = 0 then Inl ZeroDivisionError
          else if trade_type t = LONG
          then Inr ((x - entry_price t) * quantity t,
                    (x - entry_price t) * quantity t / (entry_price t * quantity t) * 100)
          else Inr ((entry_price t - x) * quantity t,
                    (entry_price t - x) * quantity t / (entry_price t * quantity t) * 100))"
  by (simp add: calculate_profit_loss_def load_def Let_def split: option.splits)

theorem calculate_profit_loss_spec_witness:
  "calculate_profit_loss (load (trade_reliance\<lparr>exit_price := Some 120\<rparr>)) = Inr (200, 20)
   \<and> calculate_profit_loss (load trade_reliance) = Inr (0, 0)"
  using calculate_profit_loss_spec [of "trade_reliance\<lparr>exit_price := Some 120\<rparr>"]
        calculate_profit_loss_spec [of trade_reliance]
  by (simp add: trade_reliance_def)

text \<open>
  The claim as the specification words it promises a returned pair for every trade with
  an exit price. A trade with entry price 0 and an exit price gets none.
\<close>

theorem calculate_profit_loss_zero_denominator:
  "calculate_profit_loss (load (trade_free\<lparr>exit_price := Some 120\<rparr>)) = Inl ZeroDivisionError"
  by (simp add: calculate_profit_loss_def load_def trade_free_def)

section \<open>Facts about the store\<close>

lemma get_trade_by_id_Some:
  "get_trade_by_id d k = Some t \<Longrightarrow> id_trade t = k \<and> t \<in> set (trades d)"
  by (auto simp: get_trade_by_id_def find_Some_iff)

lemma find_map_replace:
  "find (\<lambda>r. id_trade r = k) rows = Some t \<Longrightarrow> id_trade t' = k \<Longrightarrow>
   find (\<lambda>r. id_trade r = k) (map (\<lambda>r. if id_trade r = k then t' else r) rows) = Some t'"
  by (induction rows) (auto split: if_splits)

lemma get_trade_by_id_store:
  "get_trade_by_id d k = Some t \<Longrightarrow> id_trade t' = k \<Longrightarrow>
   get_trade_by_id (store d t') k = Some t'"
  by (simp add: get_trade_by_id_def store_def find_map_replace)

lemma flush_fields:
  "flush ob = Inr t \<Longrightarrow>
     exit_price t = o_exit_price ob \<and> profit_loss t = o_profit_loss ob \<and>
     profit_loss_percentage t = o_profit_loss_percentage ob \<and> id_trade t = o_id ob"
  by (auto simp: flush_def split: option.splits)

lemma flush_derived:
  "flush ((load t)\<lparr> o_profit_loss := Some pl, o_profit_loss_percentage := Some pct \<rparr>)
   = Inr (t\<lparr> profit_loss := Some pl, profit_loss_percentage := Some pct \<rparr>)"
  by (simp add: flush_def load_def)

lemma load_close:
  "(load t)\<lparr> o_exit_price := Some x, o_exit_date := Some dt, o_status := Some CLOSED \<rparr>
   = load (t\<lparr> exit_price := Some x, exit_date := Some dt, status := Some CLOSED \<rparr>)"
  by (simp add: load_def)

lemma setattrs_derived:
  "o_exit_price (setattrs (load row) u) = field_value (u_exit_price u) (exit_price row)"
  "o_profit_loss (setattrs (load row) u) = profit_loss row"
  "o_profit_loss_percentage (setattrs (load row) u) = profit_loss_percentage row"
  by (simp_all add: setattrs_def load_def)

lemma close_trade_found:
  assumes "get_trade_by_id d k = Some t"
  shows "close_trade d k tc =
     (case calculate_profit_loss
             (load (t\<lparr> exit_price := Some (close_exit_price tc),
                       exit_date := Some (close_exit_date tc), status := Some CLOSED \<rparr>)) of
        Inl e \<Rightarrow> (Inl e, d)
      | Inr (pl, pct) \<Rightarrow>
          (Inr (Some (t\<lparr> exit_price := Some (close_exit_price tc),
                          exit_date := Some (close_exit_date tc), status := Some CLOSED,
                          profit_loss := Some pl, profit_loss_percentage := Some pct \<rparr>)),
           store d (t\<lparr> exit_price := Some (close_exit_price tc),
                        exit_date := Some (close_exit_date tc), status := Some CLOSED,
                        profit_loss := Some pl, profit_loss_percentage := Some pct \<rparr>)))"
  using assms
  by (simp add: close_trade_def Let_def load_close commit_def flush_derived
           split: sum.splits prod.splits)

subsection \<open>The example journal\<close>

lemma journal_1: "get_trade_by_id journal 1 = Some trade_reliance"
  by (simp add: get_trade_by_id_def journal_def trade_reliance_def)

lemma journal_2: "get_trade_by_id journal 2 = Some trade_free"
  by (simp add: get_trade_by_id_def journal_def trade_reliance_def trade_free_def)

lemma journal_3: "get_trade_by_id journal 3 = Some (closed_trade 3 ''INFY'' 1)"
  by (simp add: get_trade_by_id_def journal_def trade_reliance_def trade_free_def
        closed_trade_def)

lemma journal_owner_swing:
  "portfolio_id t = 1 \<Longrightarrow>
   verify_portfolio_ownership journal (portfolio_id t) 7 = Inr portfolio_swing"
  by (simp add: verify_portfolio_ownership_def get_portfolio_by_id_def journal_def
        portfolio_swing_def)

lemma journal_owner_intraday:
  "verify_portfolio_ownership journal (portfolio_id (closed_trade i s v)) 7
   = Inr portfolio_intraday"
  by (simp add: verify_portfolio_ownership_def get_portfolio_by_id_def journal_def
        portfolio_swing_def portfolio_intraday_def closed_trade_def)

section \<open>Closing a trade\<close>

text \<open>
  Claim C2, as the code has it. For a trade the caller may act on: when the trade is
  CLOSED, the close request is rejected with HTTP 400 and the database is unchanged, so
  the exit data and the derived pair of the first close stay as they were; when the
  trade is OPEN and the calculator returns a pair for the trade with the new exit
  price, the request stores and returns the trade with exit price and exit date set,
  status CLOSED and the calculator's pair as \<open>profit_loss\<close> and
  \<open>profit_loss_percentage\<close>; when the trade is OPEN and the calculator raises, the
  request fails with that error and the database is unchanged. The stored trade is the
  one a later lookup of the id finds.
\<close>

theorem route_close_trade_requires_open:
  assumes "get_trade_by_id d k = Some t"
      and "verify_portfolio_ownership d (portfolio_id t) uid = Inr p"
  shows "(status t = Some CLOSED \<longrightarrow>
            route_close_trade d uid k tc = (Inl HTTP_400_BAD_REQUEST, d))
       \<and> (status t = Some OPEN \<longrightarrow>
            route_close_trade d uid k tc =
              (case calculate_profit_loss
                      (load (t\<lparr> exit_price := Some (close_exit_price tc),
                                exit_date := Some (close_exit_date tc),
                                status := Some CLOSED \<rparr>)) of
                 Inl e \<Rightarrow> (Inl e, d)
               | Inr (pl, pct) \<Rightarrow>
                   (Inr (Some (t\<lparr> exit_price := Some (close_exit_price tc),
                                   exit_date := Some (close_exit_date tc),
                                   status := Some CLOSED, profit_loss := Some pl,
                                   profit_loss_percentage := Some pct \<rparr>)),
                    store d (t\<lparr> exit_price := Some (close_exit_price tc),
                                 exit_date := Some (close_exit_date tc),
                                 status := Some CLOSED, profit_loss := Some pl,
                                 profit_loss_percentage := Some pct \<rparr>))))
       \<and> (\<forall>t'::Trade. id_trade t' = id_trade t \<longrightarrow>
              get_trade_by_id (store d t') k = Some t')"
proof (intro conjI impI allI)
  assume "status t = Some CLOSED"
  with assms show "route_close_trade d uid k tc = (Inl HTTP_400_BAD_REQUEST, d)"
    by (simp add: route_close_trade_def)
next
  assume "status t = Some OPEN"
  with assms show "route_close_trade d uid k tc =
              (case calculate_profit_loss
                      (load (t\<lparr> exit_price := Some (close_exit_price tc),
                                exit_date := Some (close_exit_date tc),
                                status := Some CLOSED \<rparr>)) of
                 Inl e \<Rightarrow> (Inl e, d)
               | Inr (pl, pct) \<Rightarrow>
                   (Inr (Some (t\<lparr> exit_price := Some (close_exit_price tc),
                                   exit_date := Some (close_exit_date tc),
                                   status := Some CLOSED, profit_loss := Some pl,
                                   profit_loss_percentage := Some pct \<rparr>)),
                    store d (t\<lparr> exit_price := Some (close_exit_price tc),
                                 exit_date := Some (close_exit_date tc),
                                 status := Some CLOSED, profit_loss := Some pl,
                                 profit_loss_percentage := Some pct \<rparr>)))"
    by (simp add: route_close_trade_def close_trade_found)
next
  fix t' :: Trade
  assume "id_trade t' = id_trade t"
  with assms(1) show "get_trade_by_id (store d t') k = Some t'"
    using get_trade_by_id_Some get_trade_by_id_store by metis
qed

theorem route_close_trade_requires_open_witness:
  "route_close_trade journal 7 3 at_120 = (Inl HTTP_400_BAD_REQUEST, journal)
   \<and> fst (route_close_trade journal 7 1 at_120)
     = Inr (Some (trade_reliance\<lparr> exit_price := Some 120, exit_date := Some 9,
                                   status := Some CLOSED, profit_loss := Some 200,
                                   profit_loss_percentage := Some 20 \<rparr>))"
proof -
  have a: "portfolio_id trade_reliance = 1" "status trade_reliance = Some OPEN"
    by (simp_all add: trade_reliance_def)
  have b: "status (closed_trade 3 ''INFY'' 1) = Some CLOSED"
    by (simp add: closed_trade_def)
  have c: "calculate_profit_loss
             (load (trade_reliance\<lparr> exit_price := Some 120, exit_date := Some 9,
                                    status := Some CLOSED \<rparr>)) = Inr (200, 20)"
    by (simp add: calculate_profit_loss_def load_def trade_reliance_def)
  note w1 = route_close_trade_requires_open
              [OF journal_1 journal_owner_swing [OF a(1)], of at_120]
  note w3 = route_close_trade_requires_open [OF journal_3 journal_owner_intraday, of at_120]
  have "route_close_trade journal 7 3 at_120 = (Inl HTTP_400_BAD_REQUEST, journal)"
    using w3 by (simp add: b)
  moreover have "fst (route_close_trade journal 7 1 at_120)
     = Inr (Some (trade_reliance\<lparr> exit_price := Some 120, exit_date := Some 9,
                                   status := Some CLOSED, profit_loss := Some 200,
                                   profit_loss_percentage := Some 20 \<rparr>))"
    using w1 by (simp add: a c at_120_def)
  ultimately show ?thesis by simp
qed

text \<open>
  The claim as the specification words it has every close of an OPEN trade succeed. The
  second trade of the example journal is OPEN with entry price 0: its close raises and
  leaves the journal, and with it the trade's status, as it was.
\<close>

theorem route_close_trade_open_zero_entry:
  "get_trade_by_id journal 2 = Some trade_free \<and> status trade_free = Some OPEN
   \<and> route_close_trade journal 7 2 at_120 = (Inl ZeroDivisionError, journal)"
proof -
  have a: "portfolio_id trade_free = 1" "status trade_free = Some OPEN"
    by (simp_all add: trade_free_def)
  have c: "calculate_profit_loss
             (load (trade_free\<lparr> exit_price := Some (close_exit_price at_120),
                                exit_date := Some (close_exit_date at_120),
                                status := Some CLOSED \<rparr>)) = Inl ZeroDivisionError"
    by (simp add: calculate_profit_loss_def load_def trade_free_def)
  have "route_close_trade journal 7 2 at_120 = (Inl ZeroDivisionError, journal)"
    by (simp add: route_close_trade_def journal_2 journal_owner_swing [OF a(1)] a(2)
          close_trade_found [OF journal_2] c)
  then show ?thesis by (simp add: journal_2 a(2))
qed

section \<open>The derived pair and the exit price\<close>

lemma store_consistent:
  "all_consistent d \<Longrightarrow> pl_consistent t \<Longrightarrow> all_consistent (store d t)"
  by (auto simp: all_consistent_def store_def)

lemma commit_consistent:
  assumes "all_consistent d" and "\<And>t. flush ob = Inr t \<Longrightarrow> pl_consistent t"
  shows "all_consistent (snd (commit d ob))"
  using assms by (auto simp: commit_def store_consistent split: sum.splits)

lemma update_trade_consistent:
  assumes "all_consistent d" and "u_exit_price u \<noteq> Given None"
  shows "all_consistent (snd (update_trade d k u))"
proof (cases "get_trade_by_id d k")
  case None
  then show ?thesis using assms(1) by (simp add: update_trade_def)
next
  case (Some row)
  then have row: "pl_consistent row"
    using assms(1) get_trade_by_id_Some by (auto simp: all_consistent_def)
  let ?ob = "setattrs (load row) u"
  show ?thesis
  proof (cases "o_exit_price ?ob")
    case None
    with assms(2) have "exit_price row = None"
      by (cases "u_exit_price u") (auto simp: setattrs_derived field_value_def)
    with row have keep: "profit_loss row = None" "profit_loss_percentage row = None"
      by (auto simp: pl_consistent_def)
    have "\<And>t. flush ?ob = Inr t \<Longrightarrow> pl_consistent t"
      using None keep by (auto simp: pl_consistent_def setattrs_derived dest!: flush_fields)
    from commit_consistent [OF assms(1) this] Some None show ?thesis
      by (simp add: update_trade_def)
  next
    case (Some x)
    show ?thesis
    proof (cases "calculate_profit_loss ?ob")
      case (Inl e)
      with Some \<open>get_trade_by_id d k = Some row\<close> assms(1) show ?thesis
        by (simp add: update_trade_def)
    next
      case (Inr pr)
      obtain pl pct where pr: "pr = (pl, pct)" by (cases pr)
      have "\<And>t. flush (?ob\<lparr>o_profit_loss := Some pl, o_profit_loss_percentage := Some pct\<rparr>)
                 = Inr t \<Longrightarrow> pl_consistent t"
        using Some by (auto simp: pl_consistent_def dest!: flush_fields)
      from commit_consistent [OF assms(1) this] Some Inr pr \<open>get_trade_by_id d k = Some row\<close>
      show ?thesis by (simp add: update_trade_def)
    qed
  qed
qed

lemma close_trade_consistent:
  assumes "all_consistent d"
  shows "all_consistent (snd (close_trade d k tc))"
proof (cases "get_trade_by_id d k")
  case None
  then show ?thesis using assms by (simp add: close_trade_def)
next
  case (Some row)
  let ?ob = "(load row)\<lparr> o_exit_price := Some (close_exit_price tc),
                          o_exit_date := Some (close_exit_date tc), o_status := Some CLOSED \<rparr>"
  show ?thesis
  proof (cases "calculate_profit_loss ?ob")
    case (Inl e)
    with Some assms show ?thesis by (simp add: close_trade_def)
  next
    case (Inr pr)
    obtain pl pct where pr: "pr = (pl, pct)" by (cases pr)
    have "\<And>t. flush (?ob\<lparr>o_profit_loss := Some pl, o_profit_loss_percentage := Some pct\<rparr>)
               = Inr t \<Longrightarrow> pl_consistent t"
      by (auto simp: pl_consistent_def dest!: flush_fields)
    from commit_consistent [OF assms this] Some Inr pr show ?thesis
      by (simp add: close_trade_def)
  qed
qed

lemma create_trade_consistent:
  "all_consistent d \<Longrightarrow> all_consistent (snd (create_trade d c))"
  by (auto simp: create_trade_def all_consistent_def pl_consistent_def Let_def)

lemma delete_trade_consistent:
  "all_consistent d \<Longrightarrow> all_consistent (snd (delete_trade d k))"
  by (auto simp: delete_trade_def all_consistent_def split: option.splits)

lemma handle_consistent:
  assumes "all_consistent d" and "\<not> nulls_exit_price r"
  shows "all_consistent (handle d r)"
proof (cases r)
  case (Create uid c)
  then show ?thesis
    using assms(1) create_trade_consistent [OF assms(1), of c]
    by (auto simp: route_create_trade_def split: sum.splits prod.splits)
next
  case (Edit uid k u)
  then show ?thesis
    using assms update_trade_consistent [of d u k]
    by (auto simp: route_update_trade_def split: sum.splits option.splits)
next
  case (Close uid k tc)
  then show ?thesis
    using assms(1) close_trade_consistent [OF assms(1), of k tc]
    by (auto simp: route_close_trade_def split: sum.splits option.splits)
next
  case (Delete uid k)
  then show ?thesis
    using assms(1) delete_trade_consistent [OF assms(1), of k]
    by (auto simp: route_delete_trade_def split: sum.splits option.splits)
qed

lemma run_consistent:
  "all_consistent d \<Longrightarrow> \<forall>r \<in> set rs. \<not> nulls_exit_price r \<Longrightarrow> all_consistent (run d rs)"
  unfolding run_def
  by (induction rs arbitrary: d) (auto simp: handle_consistent)

lemma journal_created:
  "run journal_new [Create 7 order_reliance] = journal_new\<lparr>trades := [trade_reliance]\<rparr>"
  by (simp add: run_def journal_new_def route_create_trade_def verify_portfolio_ownership_def
        get_portfolio_by_id_def portfolio_swing_def portfolio_intraday_def order_reliance_def
        create_trade_def next_id_def trade_reliance_def Let_def)

lemma journal_closed:
  "handle (journal_new\<lparr>trades := [trade_reliance]\<rparr>) (Close 7 1 at_120)
   = journal_new\<lparr>trades := [trade_reliance\<lparr> exit_price := Some 120, exit_date := Some 9,
                                status := Some CLOSED, profit_loss := Some 200,
                                profit_loss_percentage := Some 20 \<rparr>]\<rparr>"
  by (simp add: journal_new_def route_close_trade_def verify_portfolio_ownership_def
        get_portfolio_by_id_def portfolio_swing_def portfolio_intraday_def get_trade_by_id_def
        close_trade_def calculate_profit_loss_def load_def commit_def flush_def store_def
        trade_reliance_def at_120_def Let_def)

lemma journal_exit_nulled:
  "handle (journal_new\<lparr>trades := [trade_reliance\<lparr> exit_price := Some 120, exit_date := Some 9,
                                status := Some CLOSED, profit_loss := Some 200,
                                profit_loss_percentage := Some 20 \<rparr>]\<rparr>)
          (Edit 7 1 (no_change\<lparr>u_exit_price := Given None\<rparr>))
   = journal_new\<lparr>trades := [trade_reliance\<lparr> exit_price := None, exit_date := Some 9,
                                status := Some CLOSED, profit_loss := Some 200,
                                profit_loss_percentage := Some 20 \<rparr>]\<rparr>"
  by (simp add: journal_new_def route_update_trade_def verify_portfolio_ownership_def
        get_portfolio_by_id_def portfolio_swing_def portfolio_intraday_def get_trade_by_id_def
        update_trade_def setattrs_def field_value_def no_change_def calculate_profit_loss_def
        load_def commit_def flush_def store_def trade_reliance_def Let_def)

lemma journal_quantity_edited:
  "handle (journal_new\<lparr>trades := [trade_reliance\<lparr> exit_price := Some 120, exit_date := Some 9,
                                status := Some CLOSED, profit_loss := Some 200,
                                profit_loss_percentage := Some 20 \<rparr>]\<rparr>)
          (Edit 7 1 (no_change\<lparr>u_quantity := Given (Some 5)\<rparr>))
   = journal_new\<lparr>trades := [trade_reliance\<lparr> quantity := 5, exit_price := Some 120,
                                exit_date := Some 9, status := Some CLOSED,
                                profit_loss := Some 100,
                                profit_loss_percentage := Some 20 \<rparr>]\<rparr>"
  by (simp add: journal_new_def route_update_trade_def verify_portfolio_ownership_def
        get_portfolio_by_id_def portfolio_swing_def portfolio_intraday_def get_trade_by_id_def
        update_trade_def setattrs_def field_value_def no_change_def calculate_profit_loss_def
        load_def commit_def flush_def store_def trade_reliance_def Let_def)

text \<open>
  Claim C3, as the code has it. Starting from trades that each have the derived pair
  exactly when they have an exit price, every sequence of create, edit, close and delete
  requests in which no edit supplies \<^verbatim>\<open>exit_price = null\<close> leads to trades that each
  have the derived pair exactly when they have an exit price.
\<close>

theorem pl_consistent_preserved:
  assumes "\<forall>t \<in> set (trades d). pl_consistent t"
      and "\<forall>r \<in> set rs. \<not> nulls_exit_price r"
  shows "\<forall>t \<in> set (trades (run d rs)). pl_consistent t"
  using run_consistent [of d rs] assms by (simp add: all_consistent_def)

theorem pl_consistent_preserved_witness:
  "trades (run journal_new [Create 7 order_reliance, Close 7 1 at_120,
                            Edit 7 1 (no_change\<lparr>u_quantity := Given (Some 5)\<rparr>)])
     = [trade_reliance\<lparr> quantity := 5, exit_price := Some 120, exit_date := Some 9,
                         status := Some CLOSED, profit_loss := Some 100,
                         profit_loss_percentage := Some 20 \<rparr>]
   \<and> pl_consistent (trade_reliance\<lparr> quantity := 5, exit_price := Some 120,
                                     exit_date := Some 9, status := Some CLOSED,
                                     profit_loss := Some 100,
                                     profit_loss_percentage := Some 20 \<rparr>)"
proof -
  let ?rs = "[Create 7 order_reliance, Close 7 1 at_120,
              Edit 7 1 (no_change\<lparr>u_quantity := Given (Some 5)\<rparr>)]"
  have ev: "run journal_new ?rs
            = journal_new\<lparr>trades := [trade_reliance\<lparr> quantity := 5, exit_price := Some 120,
                                exit_date := Some 9, status := Some CLOSED,
                                profit_loss := Some 100,
                                profit_loss_percentage := Some 20 \<rparr>]\<rparr>"
    using journal_created journal_closed journal_quantity_edited by (simp add: run_def)
  have "\<forall>t \<in> set (trades journal_new). pl_consistent t"
    by (simp add: journal_new_def)
  moreover have "\<forall>r \<in> set ?rs. \<not> nulls_exit_price r" by (simp add: no_change_def)
  ultimately have "\<forall>t \<in> set (trades (run journal_new ?rs)). pl_consistent t"
    by (rule pl_consistent_preserved)
  with ev show ?thesis by simp
qed

text \<open>
  The claim as the specification words it includes the edit that supplies
  \<^verbatim>\<open>exit_price = null\<close>. Create a trade, close it, then send that edit: the exit price
  is gone and the derived pair of the close is still stored.
\<close>

theorem pl_consistent_broken_by_null_exit_price:
  "trades (run journal_new [Create 7 order_reliance, Close 7 1 at_120,
                            Edit 7 1 (no_change\<lparr>u_exit_price := Given None\<rparr>)])
     = [trade_reliance\<lparr> exit_price := None, exit_date := Some 9, status := Some CLOSED,
                         profit_loss := Some 200, profit_loss_percentage := Some 20 \<rparr>]
   \<and> \<not> pl_consistent (trade_reliance\<lparr> exit_price := None, exit_date := Some 9,
                                       status := Some CLOSED, profit_loss := Some 200,
                                       profit_loss_percentage := Some 20 \<rparr>)"
proof -
  have "run journal_new [Create 7 order_reliance, Close 7 1 at_120,
                         Edit 7 1 (no_change\<lparr>u_exit_price := Given None\<rparr>)]
        = journal_new\<lparr>trades := [trade_reliance\<lparr> exit_price := None, exit_date := Some 9,
                            status := Some CLOSED, profit_loss := Some 200,
                            profit_loss_percentage := Some 20 \<rparr>]\<rparr>"
    using journal_created journal_closed journal_exit_nulled by (simp add: run_def)
  then show ?thesis by (simp add: pl_consistent_def)
qed

section \<open>A zero denominator\<close>

lemma calculate_zero:
  "o_exit_price ob = Some x \<Longrightarrow> o_entry_price ob = Some e \<Longrightarrow> o_quantity ob = Some q \<Longrightarrow>
   e * q = 0 \<Longrightarrow> calculate_profit_loss ob = Inl ZeroDivisionError"
  by (simp add: calculate_profit_loss_def)

lemma update_trade_found:
  assumes "get_trade_by_id d k = Some t"
  shows "update_trade d k u =
     (if o_exit_price (setattrs (load t) u) \<noteq> None
      then (case calculate_profit_loss (setattrs (load t) u) of
              Inl e \<Rightarrow> (Inl e, d)
            | Inr (pl, pct) \<Rightarrow>
                commit d ((setattrs (load t) u)\<lparr> o_profit_loss := Some pl,
                                                 o_profit_loss_percentage := Some pct \<rparr>))
      else commit d (setattrs (load t) u))"
  using assms by (simp add: update_trade_def Let_def)

text \<open>
  Claim C4, as the code has it. For a close of a trade with
  \<open>entry_price * quantity = 0\<close>, and for an edit after whose fields the trade has an
  exit price and \<open>entry_price * quantity = 0\<close>, the percentage computation raises \<^verbatim>\<open>ZeroDivisionError\<close>: the request ends in that
  exception, which no handler catches, no value with NaN or infinity is produced, and
  the commit is not reached, so the database is unchanged.
\<close>

theorem zero_denominator_raises:
  assumes "get_trade_by_id d k = Some t"
      and "verify_portfolio_ownership d (portfolio_id t) uid = Inr p"
  shows "(entry_price t * quantity t = 0 \<longrightarrow>
            close_trade d k tc = (Inl ZeroDivisionError, d)
            \<and> (status t \<noteq> Some CLOSED \<longrightarrow>
                 route_close_trade d uid k tc = (Inl ZeroDivisionError, d)))
       \<and> (\<forall>x e q. o_exit_price (setattrs (load t) u) = Some x
                  \<and> o_entry_price (setattrs (load t) u) = Some e
                  \<and> o_quantity (setattrs (load t) u) = Some q \<and> e * q = 0 \<longrightarrow>
            update_trade d k u = (Inl ZeroDivisionError, d)
            \<and> route_update_trade d uid k u = (Inl ZeroDivisionError, d))"
proof (intro conjI impI allI)
  assume z: "entry_price t * quantity t = 0"
  have c: "calculate_profit_loss
          (load (t\<lparr> exit_price := Some (close_exit_price tc),
                    exit_date := Some (close_exit_date tc), status := Some CLOSED \<rparr>))
        = Inl ZeroDivisionError"
    using z by (intro calculate_zero [where x = "close_exit_price tc"]) (simp_all add: load_def)
  then show cl: "close_trade d k tc = (Inl ZeroDivisionError, d)"
    by (simp add: close_trade_found [OF assms(1)])
  assume "status t \<noteq> Some CLOSED"
  then show "route_close_trade d uid k tc = (Inl ZeroDivisionError, d)"
    using assms cl by (simp add: route_close_trade_def)
next
  fix x e q
  assume h: "o_exit_price (setattrs (load t) u) = Some x
           \<and> o_entry_price (setattrs (load t) u) = Some e
           \<and> o_quantity (setattrs (load t) u) = Some q \<and> e * q = 0"
  then have "calculate_profit_loss (setattrs (load t) u) = Inl ZeroDivisionError"
    using calculate_zero by blast
  with h show up: "update_trade d k u = (Inl ZeroDivisionError, d)"
    by (simp add: update_trade_found [OF assms(1)])
  show "route_update_trade d uid k u = (Inl ZeroDivisionError, d)"
    using assms up by (simp add: route_update_trade_def)
qed

theorem zero_denominator_raises_witness:
  "route_close_trade journal 7 2 at_120 = (Inl ZeroDivisionError, journal)
   \<and> route_update_trade journal 7 3 (no_change\<lparr>u_quantity := Given (Some 0)\<rparr>)
       = (Inl ZeroDivisionError, journal)"
proof -
  have a: "portfolio_id trade_free = 1" by (simp add: trade_free_def)
  have b: "entry_price trade_free * quantity trade_free = 0" "status trade_free \<noteq> Some CLOSED"
    by (simp_all add: trade_free_def)
  let ?u = "no_change\<lparr>u_quantity := Given (Some 0)\<rparr>"
  have c: "o_exit_price (setattrs (load (closed_trade 3 ''INFY'' 1)) ?u) = Some 101
           \<and> o_entry_price (setattrs (load (closed_trade 3 ''INFY'' 1)) ?u) = Some 100
           \<and> o_quantity (setattrs (load (closed_trade 3 ''INFY'' 1)) ?u) = Some 0
           \<and> (100::real) * 0 = 0"
    by (simp add: setattrs_def load_def closed_trade_def no_change_def field_value_def)
  from zero_denominator_raises [OF journal_2 journal_owner_swing [OF a], of at_120 ?u] b
  have "route_close_trade journal 7 2 at_120 = (Inl ZeroDivisionError, journal)" by blast
  moreover
  from zero_denominator_raises [OF journal_3 journal_owner_intraday, of at_120 ?u] c
  have "route_update_trade journal 7 3 ?u = (Inl ZeroDivisionError, journal)" by blast
  ultimately show ?thesis by simp
qed


text \<open>
  The claim as the specification words it has the error surfaced as an invalid-input
  error of the operation. No handler checks the denominator or catches the exception:
  the edit that sets the quantity of the third trade of the example journal to 0 ends in
  the uncaught \<^verbatim>\<open>ZeroDivisionError\<close>, which is none of the errors a handler raises.
\<close>

theorem zero_denominator_error_uncaught:
  "route_update_trade journal 7 3 (no_change\<lparr>u_quantity := Given (Some 0)\<rparr>)
     = (Inl ZeroDivisionError, journal)
   \<and> \<not> raised_by_handler ZeroDivisionError"
proof -
  let ?u = "no_change\<lparr>u_quantity := Given (Some 0)\<rparr>"
  have c: "calculate_profit_loss (setattrs (load (closed_trade 3 ''INFY'' 1)) ?u)
           = Inl ZeroDivisionError"
    by (simp add: calculate_profit_loss_def setattrs_def load_def closed_trade_def
          no_change_def field_value_def)
  have x: "o_exit_price (setattrs (load (closed_trade 3 ''INFY'' 1)) ?u) = Some 101"
    by (simp add: setattrs_def load_def closed_trade_def no_change_def field_value_def)
  have "update_trade journal 3 ?u = (Inl ZeroDivisionError, journal)"
    by (simp add: update_trade_found [OF journal_3] c x)
  then have "route_update_trade journal 7 3 ?u = (Inl ZeroDivisionError, journal)"
    by (simp add: route_update_trade_def journal_3 journal_owner_intraday)
  then show ?thesis by simp
qed


section \<open>When an edit recomputes the derived pair\<close>

lemma setattrs_four:
  assumes "u_symbol u = Unset" "u_entry_date u = Unset" "u_exit_price u = Unset"
          "u_exit_date u = Unset" "u_status u = Unset" "u_tags u = Unset"
      and "field_value (u_trade_type u) (Some (trade_type t)) = Some ty"
      and "field_value (u_entry_price u) (Some (entry_price t)) = Some e"
      and "field_value (u_quantity u) (Some (quantity t)) = Some q"
  shows "setattrs (load t) u
         = load (t\<lparr> trade_type := ty, entry_price := e, quantity := q,
                    trade_notes := field_value (u_notes u) (trade_notes t) \<rparr>)"
  using assms by (simp add: setattrs_def load_def field_value_def)

text \<open>
  Claim C10, as the code has it. For an edit of an existing trade: when the trade has no
  exit price after the supplied fields are applied, the instance is committed with the
  derived pair it had; when it has one, the calculator runs on the instance and its pair
  replaces the stored one, or its error ends the request. Whether the edit itself
  supplies an exit price plays no part. Hence, for a trade with exit price \<open>x\<close> and an
  edit that supplies non-null values for some of \<open>entry_price\<close>, \<open>quantity\<close>,
  \<open>trade_type\<close>, a value for \<open>notes\<close>, and nothing else: with \<open>e\<close>, \<open>q\<close>,
  \<open>ty\<close> the entry price, quantity and direction after the edit, the request raises
  \<^verbatim>\<open>ZeroDivisionError\<close> and stores nothing when \<open>e * q = 0\<close>, and otherwise stores
  the edited trade with the pair computed from \<open>x\<close>, \<open>e\<close>, \<open>q\<close> and \<open>ty\<close>, whatever
  pair was stored before.
\<close>

theorem update_trade_recomputes:
  assumes "get_trade_by_id d k = Some t"
  shows "(o_exit_price (setattrs (load t) u) = None \<longrightarrow>
            update_trade d k u = commit d (setattrs (load t) u)
            \<and> o_profit_loss (setattrs (load t) u) = profit_loss t
            \<and> o_profit_loss_percentage (setattrs (load t) u) = profit_loss_percentage t)
       \<and> (o_exit_price (setattrs (load t) u) \<noteq> None \<longrightarrow>
            update_trade d k u =
              (case calculate_profit_loss (setattrs (load t) u) of
                 Inl e \<Rightarrow> (Inl e, d)
               | Inr (pl, pct) \<Rightarrow>
                   commit d ((setattrs (load t) u)\<lparr> o_profit_loss := Some pl,
                                                    o_profit_loss_percentage := Some pct \<rparr>)))
       \<and> (\<forall>x ty e q.
             exit_price t = Some x \<and> u_symbol u = Unset \<and> u_entry_date u = Unset
             \<and> u_exit_price u = Unset \<and> u_exit_date u = Unset \<and> u_status u = Unset
             \<and> u_tags u = Unset
             \<and> field_value (u_trade_type u) (Some (trade_type t)) = Some ty
             \<and> field_value (u_entry_price u) (Some (entry_price t)) = Some e
             \<and> field_value (u_quantity u) (Some (quantity t)) = Some q \<longrightarrow>
             update_trade d k u =
               (if e * q = 0 then (Inl ZeroDivisionError, d)
                else
               (Inr (Some (t\<lparr> trade_type := ty, entry_price := e, quantity := q,
                               trade_notes := field_value (u_notes u) (trade_notes t),
                               profit_loss :=
                                 Some (if ty = LONG then (x - e) * q else (e - x) * q),
                               profit_loss_percentage :=
                                 Some ((if ty = LONG then (x - e) * q else (e - x) * q)
                                       / (e * q) * 100) \<rparr>)),
                store d (t\<lparr> trade_type := ty, entry_price := e, quantity := q,
                             trade_notes := field_value (u_notes u) (trade_notes t),
                             profit_loss :=
                               Some (if ty = LONG then (x - e) * q else (e - x) * q),
                             profit_loss_percentage :=
                               Some ((if ty = LONG then (x - e) * q else (e - x) * q)
                                     / (e * q) * 100) \<rparr>))))"
proof (intro conjI impI allI)
  assume "o_exit_price (setattrs (load t) u) = None"
  then show "update_trade d k u = commit d (setattrs (load t) u)"
    by (simp add: update_trade_found [OF assms])
next
  show "o_profit_loss (setattrs (load t) u) = profit_loss t"
    by (simp add: setattrs_derived)
next
  show "o_profit_loss_percentage (setattrs (load t) u) = profit_loss_percentage t"
    by (simp add: setattrs_derived)
next
  assume "o_exit_price (setattrs (load t) u) \<noteq> None"
  then show "update_trade d k u =
              (case calculate_profit_loss (setattrs (load t) u) of
                 Inl e \<Rightarrow> (Inl e, d)
               | Inr (pl, pct) \<Rightarrow>
                   commit d ((setattrs (load t) u)\<lparr> o_profit_loss := Some pl,
                                                    o_profit_loss_percentage := Some pct \<rparr>))"
    by (simp add: update_trade_found [OF assms])
next
  fix x ty e q
  assume h: "exit_price t = Some x \<and> u_symbol u = Unset \<and> u_entry_date u = Unset
             \<and> u_exit_price u = Unset \<and> u_exit_date u = Unset \<and> u_status u = Unset
             \<and> u_tags u = Unset
             \<and> field_value (u_trade_type u) (Some (trade_type t)) = Some ty
             \<and> field_value (u_entry_price u) (Some (entry_price t)) = Some e
             \<and> field_value (u_quantity u) (Some (quantity t)) = Some q"
  let ?t = "t\<lparr> trade_type := ty, entry_price := e, quantity := q,
               trade_notes := field_value (u_notes u) (trade_notes t) \<rparr>"
  from h have ob: "setattrs (load t) u = load ?t"
    by (intro setattrs_four) simp_all
  have ex: "o_exit_price (load ?t) = Some x" using h by (simp add: load_def)
  have calc: "calculate_profit_loss (load ?t)
        = (if e * q = 0 then Inl ZeroDivisionError
           else Inr (if ty = LONG then (x - e) * q else (e - x) * q,
                     (if ty = LONG then (x - e) * q else (e - x) * q) / (e * q) * 100))"
    using h by (simp add: calculate_profit_loss_def load_def)
  show "update_trade d k u =
               (if e * q = 0 then (Inl ZeroDivisionError, d)
                else
               (Inr (Some (t\<lparr> trade_type := ty, entry_price := e, quantity := q,
                               trade_notes := field_value (u_notes u) (trade_notes t),
                               profit_loss :=
                                 Some (if ty = LONG then (x - e) * q else (e - x) * q),
                               profit_loss_percentage :=
                                 Some ((if ty = LONG then (x - e) * q else (e - x) * q)
                                       / (e * q) * 100) \<rparr>)),
                store d (t\<lparr> trade_type := ty, entry_price := e, quantity := q,
                             trade_notes := field_value (u_notes u) (trade_notes t),
                             profit_loss :=
                               Some (if ty = LONG then (x - e) * q else (e - x) * q),
                             profit_loss_percentage :=
                               Some ((if ty = LONG then (x - e) * q else (e - x) * q)
                                     / (e * q) * 100) \<rparr>)))"
    by (simp add: update_trade_found [OF assms] ob ex calc commit_def flush_derived)
qed

theorem update_trade_recomputes_witness:
  "update_trade journal 3 (no_change\<lparr>u_quantity := Given (Some 5)\<rparr>)
   = (Inr (Some ((closed_trade 3 ''INFY'' 1)\<lparr> quantity := 5, profit_loss := Some 5,
                                              profit_loss_percentage := Some 1 \<rparr>)),
      store journal ((closed_trade 3 ''INFY'' 1)\<lparr> quantity := 5, profit_loss := Some 5,
                                                 profit_loss_percentage := Some 1 \<rparr>))"
proof -
  let ?u = "no_change\<lparr>u_quantity := Given (Some 5)\<rparr>"
  let ?t = "closed_trade 3 ''INFY'' 1"
  have h: "exit_price ?t = Some 101 \<and> u_symbol ?u = Unset \<and> u_entry_date ?u = Unset
             \<and> u_exit_price ?u = Unset \<and> u_exit_date ?u = Unset \<and> u_status ?u = Unset
             \<and> u_tags ?u = Unset
             \<and> field_value (u_trade_type ?u) (Some (trade_type ?t)) = Some LONG
             \<and> field_value (u_entry_price ?u) (Some (entry_price ?t)) = Some 100
             \<and> field_value (u_quantity ?u) (Some (quantity ?t)) = Some 5"
    by (simp add: no_change_def closed_trade_def field_value_def)
  from update_trade_recomputes [OF journal_3, of ?u] h
  have "update_trade journal 3 ?u =
               (if (100::real) * 5 = 0 then (Inl ZeroDivisionError, journal)
                else
               (Inr (Some (?t\<lparr> trade_type := LONG, entry_price := 100, quantity := 5,
                               trade_notes := field_value (u_notes ?u) (trade_notes ?t),
                               profit_loss :=
                                 Some (if LONG = LONG then (101 - 100) * 5 else (100 - 101) * 5),
                               profit_loss_percentage :=
                                 Some ((if LONG = LONG then (101 - 100) * 5 else (100 - 101) * 5)
                                       / (100 * 5) * 100) \<rparr>)),
                store journal (?t\<lparr> trade_type := LONG, entry_price := 100, quantity := 5,
                             trade_notes := field_value (u_notes ?u) (trade_notes ?t),
                             profit_loss :=
                               Some (if LONG = LONG then (101 - 100) * 5 else (100 - 101) * 5),
                             profit_loss_percentage :=
                               Some ((if LONG = LONG then (101 - 100) * 5 else (100 - 101) * 5)
                                     / (100 * 5) * 100) \<rparr>)))"
    by blast
  then show ?thesis by (simp add: no_change_def closed_trade_def field_value_def)
qed

text \<open>
  The claim as worded has every edit of only the quantity of a trade with exit data
  overwrite the stored pair. The edit that sets the quantity of the third trade of the
  example journal to 0 raises, and the journal keeps the pair it had.
\<close>

theorem update_trade_zero_quantity:
  "get_trade_by_id journal 3 = Some (closed_trade 3 ''INFY'' 1)
   \<and> exit_price (closed_trade 3 ''INFY'' 1) = Some 101
   \<and> update_trade journal 3 (no_change\<lparr>u_quantity := Given (Some 0)\<rparr>)
       = (Inl ZeroDivisionError, journal)"
proof -
  have "calculate_profit_loss
          (setattrs (load (closed_trade 3 ''INFY'' 1)) (no_change\<lparr>u_quantity := Given (Some 0)\<rparr>))
        = Inl ZeroDivisionError"
    by (simp add: calculate_profit_loss_def setattrs_def load_def closed_trade_def
          no_change_def field_value_def)
  moreover have "o_exit_price
          (setattrs (load (closed_trade 3 ''INFY'' 1)) (no_change\<lparr>u_quantity := Given (Some 0)\<rparr>))
        = Some 101"
    by (simp add: setattrs_def load_def closed_trade_def no_change_def field_value_def)
  ultimately show ?thesis
    by (simp add: update_trade_found [OF journal_3] journal_3) (simp add: closed_trade_def)
qed



section \<open>Rounding to two decimals\<close>

lemma round2_nearest2: "round2 x (nearest2 x)"
proof -
  let ?f = "\<lfloor>x * 100\<rfloor>"
  have b: "of_int ?f \<le> x * 100" "x * 100 < of_int ?f + 1" by linarith+
  have "\<bar>of_int (round_half_even (x * 100)) - x * 100\<bar> \<le> 1 / 2"
    using b by (auto simp: round_half_even_def Let_def)
  then have "\<bar>nearest2 x - x\<bar> \<le> 1 / 200"
    by (simp add: nearest2_def field_simps abs_le_iff)
  then show ?thesis by (simp add: round2_def nearest2_def)
qed

lemma round2_0: "round2 0 y = (y = 0)"
proof
  assume r: "round2 0 y"
  then have i: "y * 100 = of_int \<lfloor>y * 100\<rfloor>" and "\<bar>y\<bar> \<le> 1 / 200"
    by (simp_all add: round2_def)
  then have "\<bar>y * 100\<bar> < 1" by linarith
  then have "\<lfloor>y * 100\<rfloor> = 0" using i by linarith
  with i show "y = 0" by simp
next
  assume "y = 0" then show "round2 0 y" by (simp add: round2_def)
qed

lemma round2_unique:
  assumes "round2 x y" and "round2 x y'" and "\<bar>y - x\<bar> < 1 / 200"
  shows "y' = y"
proof -
  from assms have i: "y * 100 = of_int \<lfloor>y * 100\<rfloor>" "y' * 100 = of_int \<lfloor>y' * 100\<rfloor>"
    and d: "\<bar>y' - x\<bar> \<le> 1 / 200"
    by (simp_all add: round2_def)
  from d assms(3) have "\<bar>y' * 100 - y * 100\<bar> < 1" by linarith
  with i have "\<bar>(of_int \<lfloor>y' * 100\<rfloor> :: real) - of_int \<lfloor>y * 100\<rfloor>\<bar> < 1" by simp
  then have "\<bar>\<lfloor>y' * 100\<rfloor> - \<lfloor>y * 100\<rfloor>\<bar> < 1"
    by (metis of_int_abs of_int_diff of_int_less_1_iff)
  then have "\<lfloor>y' * 100\<rfloor> = \<lfloor>y * 100\<rfloor>" by simp
  with i have "y' * 100 = y * 100" by simp
  then show ?thesis by simp
qed

lemma round2_halfway:
  "round2 (23 / 160 * 100) (1437 / 100) \<and> round2 (23 / 160 * 100) (1438 / 100)
   \<and> round2 (1 / 40) (2 / 100) \<and> round2 (1 / 40) (3 / 100)"
  by (simp add: round2_def)


section \<open>Portfolio analytics\<close>

lemma py_sum_all_some:
  "\<forall>t \<in> set ts. profit_loss t \<noteq> None \<Longrightarrow>
   py_sum (map profit_loss ts) acc = Inr (acc + sum_list (map pl_or_0 ts))"
  by (induction ts arbitrary: acc) (auto simp: pl_or_0_def)

lemma sum_profit_loss_all_some:
  "\<forall>t \<in> set ts. profit_loss t \<noteq> None \<Longrightarrow>
   sum_profit_loss ts = Inr (sum_list (map pl_or_0 ts))"
  by (simp add: sum_profit_loss_def py_sum_all_some)

lemma py_sum_none:
  "None \<in> set vs \<Longrightarrow> py_sum vs acc = Inl TypeError"
  by (induction vs arbitrary: acc) (auto split: option.splits)

lemma winners_losers: 
  "length (filter (\<lambda>t. 0 < pl_or_0 t) ts) + length (filter (\<lambda>t. pl_or_0 t \<le> 0) ts) = length ts"
  using sum_length_filter_compl [of "\<lambda>t. 0 < pl_or_0 t" ts] by (simp add: not_less)

lemma winners_not_null: "\<forall>t \<in> set (filter (\<lambda>t. 0 < pl_or_0 t) ts). profit_loss t \<noteq> None"
  by (auto simp: pl_or_0_def split: option.splits)

lemma winners_sum:
  "sum_profit_loss (filter (\<lambda>t. 0 < pl_or_0 t) ts)
   = Inr (sum_list (map pl_or_0 (filter (\<lambda>t. 0 < pl_or_0 t) ts)))"
  by (rule sum_profit_loss_all_some) (rule winners_not_null)

lemma sum_profit_loss_Nil: "sum_profit_loss [] = Inr 0"
  by (simp add: sum_profit_loss_def)

lemma portfolio_statistics_iff:
  assumes "ts \<noteq> []" and "\<forall>t \<in> set ts. profit_loss t \<noteq> None"
  shows "portfolio_statistics pid nm ts r
         = (case r of Inl e \<Rightarrow> False | Inr a \<Rightarrow> report_of pid nm ts a)"
proof -
  have l: "sum_profit_loss (filter (\<lambda>t. pl_or_0 t \<le> 0) ts)
           = Inr (sum_list (map pl_or_0 (filter (\<lambda>t. pl_or_0 t \<le> 0) ts)))"
    using assms(2) by (intro sum_profit_loss_all_some) simp
  show ?thesis
    using assms(1) winners_losers [of ts] winners_sum [of ts] l
    by (cases "filter (\<lambda>t. 0 < pl_or_0 t) ts = []";
        cases "filter (\<lambda>t. pl_or_0 t \<le> 0) ts = []")
       (simp_all add: portfolio_statistics_def Let_def sum_profit_loss_Nil report_of_def
          split: sum.splits)
qed

lemma portfolio_statistics_null:
  assumes "t \<in> set ts" and "profit_loss t = None"
  shows "portfolio_statistics pid nm ts r = (r = Inl TypeError)"
proof -
  have "t \<in> set (filter (\<lambda>t. pl_or_0 t \<le> 0) ts)"
    using assms by (simp add: pl_or_0_def)
  then have mem: "None \<in> set (map profit_loss (filter (\<lambda>t. pl_or_0 t \<le> 0) ts))"
    and pos: "filter (\<lambda>t. pl_or_0 t \<le> 0) ts \<noteq> []"
    using assms(2) by (force, force)
  have l: "sum_profit_loss (filter (\<lambda>t. pl_or_0 t \<le> 0) ts) = Inl TypeError"
    using mem by (simp add: sum_profit_loss_def py_sum_none)
  from assms(1) have "ts \<noteq> []" by auto
  then show ?thesis
    using pos by (simp add: portfolio_statistics_def Let_def winners_sum l)
qed

lemma summary_nearest: "summary t (nearest_summary t)"
  by (simp add: summary_def nearest_summary_def round2_nearest2)

lemma report_of_nearest: "report_of pid nm ts (nearest_report pid nm ts)"
  by (simp add: report_of_def nearest_report_def round2_nearest2 summary_nearest)

lemma portfolio_statistics_total:
  "portfolio_statistics pid nm ts (Inr a) \<Longrightarrow> total_trades a = length ts"
proof (cases "\<forall>t \<in> set ts. profit_loss t \<noteq> None")
  case True
  assume r: "portfolio_statistics pid nm ts (Inr a)"
  show ?thesis
  proof (cases "ts = []")
    case True
    with r show ?thesis by (auto simp: portfolio_statistics_def)
  next
    case False
    from portfolio_statistics_iff [OF False True, of pid nm "Inr a"] r show ?thesis
      by (simp add: report_of_def)
  qed
next
  case False
  assume r: "portfolio_statistics pid nm ts (Inr a)"
  from False obtain t where "t \<in> set ts" "profit_loss t = None" by auto
  from portfolio_statistics_null [OF this, of pid nm "Inr a"] r show ?thesis by simp
qed


lemma closed_winners:
  "filter (\<lambda>t. 0 < pl_or_0 t) (select_closed_trades d pid)
   = filter (\<lambda>t. portfolio_id t = pid \<and> status t = Some CLOSED \<and>
                  (case profit_loss t of None \<Rightarrow> False | Some v \<Rightarrow> 0 < v)) (trades d)"
  by (auto simp: select_closed_trades_def pl_or_0_def intro!: filter_cong split: option.splits)

lemma closed_losers:
  "filter (\<lambda>t. pl_or_0 t \<le> 0) (select_closed_trades d pid)
   = filter (\<lambda>t. portfolio_id t = pid \<and> status t = Some CLOSED \<and>
                  (case profit_loss t of None \<Rightarrow> True | Some v \<Rightarrow> v \<le> 0)) (trades d)"
  by (auto simp: select_closed_trades_def pl_or_0_def intro!: filter_cong split: option.splits)

lemma pl_or_0_map: "map pl_or_0 ts = map (\<lambda>t. case profit_loss t of None \<Rightarrow> 0 | Some v \<Rightarrow> v) ts"
  by (simp add: pl_or_0_def)

lemma analytics_returns:
  assumes "verify_portfolio_ownership d pid uid = Inr p"
      and "\<exists>t \<in> set (trades d). portfolio_id t = pid \<and> status t = Some CLOSED"
      and "\<forall>t \<in> set (trades d).
             portfolio_id t = pid \<and> status t = Some CLOSED \<longrightarrow> profit_loss t \<noteq> None"
  shows "get_portfolio_analytics d uid pid r
         = (case r of Inl e \<Rightarrow> False
            | Inr a \<Rightarrow> report_of pid (name p) (select_closed_trades d pid) a)"
proof -
  have ne: "select_closed_trades d pid \<noteq> []"
    using assms(2) by (auto simp: select_closed_trades_def filter_empty_conv)
  have nn: "\<forall>t \<in> set (select_closed_trades d pid). profit_loss t \<noteq> None"
    using assms(3) by (auto simp: select_closed_trades_def)
  show ?thesis
    by (simp add: get_portfolio_analytics_def assms(1) portfolio_statistics_iff [OF ne nn])
qed

text \<open>
  Claim C5, as the code has it. For a portfolio of the caller with at least one closed
  trade, every closed trade of it having a stored \<open>profit_loss\<close>: the analytics
  return a dictionary, and in every dictionary they can return \<open>total_trades\<close> counts
  the portfolio's closed trades, \<open>total_wins\<close> counts those with \<open>profit_loss > 0\<close>,
  \<open>total_losses\<close> counts those with \<open>profit_loss \<le> 0\<close>, wins and losses add up to
  the total, and \<open>win_rate\<close> is \<open>wins / total * 100\<close> rounded to two decimals.
\<close>

theorem analytics_win_loss:
  assumes "verify_portfolio_ownership d pid uid = Inr p"
      and "\<exists>t \<in> set (trades d). portfolio_id t = pid \<and> status t = Some CLOSED"
      and "\<forall>t \<in> set (trades d).
             portfolio_id t = pid \<and> status t = Some CLOSED \<longrightarrow> profit_loss t \<noteq> None"
  shows "(\<exists>a. get_portfolio_analytics d uid pid (Inr a))
       \<and> (\<forall>r. get_portfolio_analytics d uid pid r \<longrightarrow>
             (\<exists>a. r = Inr a
                \<and> total_trades a
                    = length (filter (\<lambda>t. portfolio_id t = pid \<and> status t = Some CLOSED)
                                (trades d))
                \<and> total_wins a
                    = length (filter (\<lambda>t. portfolio_id t = pid \<and> status t = Some CLOSED \<and>
                                (case profit_loss t of None \<Rightarrow> False | Some v \<Rightarrow> 0 < v))
                                (trades d))
                \<and> total_losses a
                    = length (filter (\<lambda>t. portfolio_id t = pid \<and> status t = Some CLOSED \<and>
                                (case profit_loss t of None \<Rightarrow> True | Some v \<Rightarrow> v \<le> 0))
                                (trades d))
                \<and> total_wins a + total_losses a = total_trades a
                \<and> round2 (real (total_wins a) / real (total_trades a) * 100) (win_rate a)))"
proof (intro conjI allI impI)
  have "get_portfolio_analytics d uid pid
          (Inr (nearest_report pid (name p) (select_closed_trades d pid)))"
    by (simp add: analytics_returns [OF assms] report_of_nearest)
  then show "\<exists>a. get_portfolio_analytics d uid pid (Inr a)" ..
next
  fix r
  assume "get_portfolio_analytics d uid pid r"
  then obtain a where a: "r = Inr a" "report_of pid (name p) (select_closed_trades d pid) a"
    by (auto simp: analytics_returns [OF assms] split: sum.splits)
  have n: "total_trades a
           = length (filter (\<lambda>t. portfolio_id t = pid \<and> status t = Some CLOSED) (trades d))"
    using a(2) by (simp add: report_of_def select_closed_trades_def)
  have w: "total_wins a
           = length (filter (\<lambda>t. portfolio_id t = pid \<and> status t = Some CLOSED \<and>
                       (case profit_loss t of None \<Rightarrow> False | Some v \<Rightarrow> 0 < v)) (trades d))"
    using a(2) by (simp only: report_of_def closed_winners)
  have l: "total_losses a
           = length (filter (\<lambda>t. portfolio_id t = pid \<and> status t = Some CLOSED \<and>
                       (case profit_loss t of None \<Rightarrow> True | Some v \<Rightarrow> v \<le> 0)) (trades d))"
    using a(2) by (simp only: report_of_def closed_losers)
  have s: "total_wins a + total_losses a = total_trades a"
    using a(2) winners_losers [of "select_closed_trades d pid"] by (simp add: report_of_def)
  have rt: "round2 (real (total_wins a) / real (total_trades a) * 100) (win_rate a)"
    using a(2) by (simp add: report_of_def)
  from a(1) n w l s rt
  show "\<exists>a. r = Inr a
                \<and> total_trades a
                    = length (filter (\<lambda>t. portfolio_id t = pid \<and> status t = Some CLOSED)
                                (trades d))
                \<and> total_wins a
                    = length (filter (\<lambda>t. portfolio_id t = pid \<and> status t = Some CLOSED \<and>
                                (case profit_loss t of None \<Rightarrow> False | Some v \<Rightarrow> 0 < v))
                                (trades d))
                \<and> total_losses a
                    = length (filter (\<lambda>t. portfolio_id t = pid \<and> status t = Some CLOSED \<and>
                                (case profit_loss t of None \<Rightarrow> True | Some v \<Rightarrow> v \<le> 0))
                                (trades d))
                \<and> total_wins a + total_losses a = total_trades a
                \<and> round2 (real (total_wins a) / real (total_trades a) * 100) (win_rate a)"
    by blast
qed

text \<open>
  Claim C7, as the code has it. For a portfolio of the caller with at least one closed
  trade, every closed trade of it having a stored \<open>profit_loss\<close>: the analytics
  return a dictionary, and in every dictionary they can return \<open>profit_factor\<close> is 0
  when the \<open>profit_loss\<close> of the losing trades sums to 0 (as it does when every trade
  is a winner), and otherwise the sum over the winning trades divided by the absolute
  value of the sum over the losing trades, rounded to two decimals.
\<close>

theorem analytics_profit_factor:
  assumes "verify_portfolio_ownership d pid uid = Inr p"
      and "\<exists>t \<in> set (trades d). portfolio_id t = pid \<and> status t = Some CLOSED"
      and "\<forall>t \<in> set (trades d).
             portfolio_id t = pid \<and> status t = Some CLOSED \<longrightarrow> profit_loss t \<noteq> None"
  shows "(\<exists>a. get_portfolio_analytics d uid pid (Inr a))
       \<and> (\<forall>r. get_portfolio_analytics d uid pid r \<longrightarrow>
             (\<exists>a. r = Inr a
                \<and> (if \<bar>\<Sum>t\<leftarrow>filter (\<lambda>t. portfolio_id t = pid \<and> status t = Some CLOSED \<and>
                                (case profit_loss t of None \<Rightarrow> True | Some v \<Rightarrow> v \<le> 0))
                              (trades d).
                          case profit_loss t of None \<Rightarrow> 0 | Some v \<Rightarrow> v\<bar> = 0
                    then profit_factor a = 0
                    else round2
                           ((\<Sum>t\<leftarrow>filter (\<lambda>t. portfolio_id t = pid \<and> status t = Some CLOSED \<and>
                                  (case profit_loss t of None \<Rightarrow> False | Some v \<Rightarrow> 0 < v))
                                (trades d).
                               case profit_loss t of None \<Rightarrow> 0 | Some v \<Rightarrow> v)
                            / \<bar>\<Sum>t\<leftarrow>filter (\<lambda>t. portfolio_id t = pid \<and> status t = Some CLOSED \<and>
                                   (case profit_loss t of None \<Rightarrow> True | Some v \<Rightarrow> v \<le> 0))
                                 (trades d).
                                case profit_loss t of None \<Rightarrow> 0 | Some v \<Rightarrow> v\<bar>)
                           (profit_factor a))))"
proof (intro conjI allI impI)
  have "get_portfolio_analytics d uid pid
          (Inr (nearest_report pid (name p) (select_closed_trades d pid)))"
    by (simp add: analytics_returns [OF assms] report_of_nearest)
  then show "\<exists>a. get_portfolio_analytics d uid pid (Inr a)" ..
next
  fix r
  assume "get_portfolio_analytics d uid pid r"
  then obtain a where a: "r = Inr a" "report_of pid (name p) (select_closed_trades d pid) a"
    by (auto simp: analytics_returns [OF assms] split: sum.splits)
  let ?W = "\<Sum>t\<leftarrow>filter (\<lambda>t. portfolio_id t = pid \<and> status t = Some CLOSED \<and>
                                  (case profit_loss t of None \<Rightarrow> False | Some v \<Rightarrow> 0 < v))
                                (trades d).
                               case profit_loss t of None \<Rightarrow> 0 | Some v \<Rightarrow> v"
  let ?L = "\<Sum>t\<leftarrow>filter (\<lambda>t. portfolio_id t = pid \<and> status t = Some CLOSED \<and>
                                (case profit_loss t of None \<Rightarrow> True | Some v \<Rightarrow> v \<le> 0))
                              (trades d).
                          case profit_loss t of None \<Rightarrow> 0 | Some v \<Rightarrow> v"
  have f: "round2 (if 0 < \<bar>?L\<bar> then ?W / \<bar>?L\<bar> else 0) (profit_factor a)"
    using a(2) by (simp only: report_of_def closed_winners closed_losers pl_or_0_map)
  then have "if \<bar>?L\<bar> = 0 then profit_factor a = 0 else round2 (?W / \<bar>?L\<bar>) (profit_factor a)"
    by (simp add: round2_0 split: if_splits)
  with a(1) show "\<exists>a. r = Inr a \<and>
      (if \<bar>?L\<bar> = 0 then profit_factor a = 0 else round2 (?W / \<bar>?L\<bar>) (profit_factor a))"
    by blast
qed

lemma ledger_owner: "verify_portfolio_ownership ledger 2 7 = Inr portfolio_intraday"
  by (simp add: verify_portfolio_ownership_def get_portfolio_by_id_def ledger_def
        portfolio_swing_def portfolio_intraday_def)

lemma ledger_closed_trades:
  "select_closed_trades ledger 2
   = [closed_trade 3 ''INFY'' 1, closed_trade 4 ''INFY'' (- 1), closed_trade 5 ''TCS'' (- 2)]"
  by (simp add: select_closed_trades_def ledger_def trade_reliance_def closed_trade_def)

lemma ledger_closed:
  "\<exists>t \<in> set (trades ledger). portfolio_id t = 2 \<and> status t = Some CLOSED"
  "\<forall>t \<in> set (trades ledger).
     portfolio_id t = 2 \<and> status t = Some CLOSED \<longrightarrow> profit_loss t \<noteq> None"
  by (simp_all add: ledger_def trade_reliance_def closed_trade_def)

lemma closed_trade_pl [simp]:
  "pl_or_0 (closed_trade i s v) = v" "profit_loss (closed_trade i s v) = Some v"
  by (simp_all add: pl_or_0_def closed_trade_def)

lemma ledger_counts:
  "length (filter (\<lambda>t. portfolio_id t = 2 \<and> status t = Some CLOSED) (trades ledger)) = 3"
  "length (filter (\<lambda>t. portfolio_id t = 2 \<and> status t = Some CLOSED \<and>
             (case profit_loss t of None \<Rightarrow> False | Some v \<Rightarrow> 0 < v)) (trades ledger)) = 1"
  "length (filter (\<lambda>t. portfolio_id t = 2 \<and> status t = Some CLOSED \<and>
             (case profit_loss t of None \<Rightarrow> True | Some v \<Rightarrow> v \<le> 0)) (trades ledger)) = 2"
  by (simp_all add: ledger_def trade_reliance_def closed_trade_def)

lemma ledger_sums:
  "(\<Sum>t\<leftarrow>filter (\<lambda>t. portfolio_id t = 2 \<and> status t = Some CLOSED \<and>
             (case profit_loss t of None \<Rightarrow> False | Some v \<Rightarrow> 0 < v)) (trades ledger).
      case profit_loss t of None \<Rightarrow> 0 | Some v \<Rightarrow> v) = 1"
  "(\<Sum>t\<leftarrow>filter (\<lambda>t. portfolio_id t = 2 \<and> status t = Some CLOSED \<and>
             (case profit_loss t of None \<Rightarrow> True | Some v \<Rightarrow> v \<le> 0)) (trades ledger).
      case profit_loss t of None \<Rightarrow> 0 | Some v \<Rightarrow> v) = - 3"
  by (simp_all add: ledger_def trade_reliance_def closed_trade_def)

lemma ledger_report_of:
  "report_of 2 ''intraday'' (select_closed_trades ledger 2) a
   = report_of 2 ''intraday''
       [closed_trade 3 ''INFY'' 1, closed_trade 4 ''INFY'' (- 1), closed_trade 5 ''TCS'' (- 2)] a"
  by (simp only: ledger_closed_trades)

lemma ledger_returns:
  "get_portfolio_analytics ledger 7 2 (Inr a)
   = report_of 2 ''intraday''
       [closed_trade 3 ''INFY'' 1, closed_trade 4 ''INFY'' (- 1), closed_trade 5 ''TCS'' (- 2)] a"
  using analytics_returns [OF ledger_owner ledger_closed, of "Inr a"]
  by (simp add: ledger_closed_trades portfolio_intraday_def)

lemma ledger_best:
  "py_max (closed_trade 3 ''INFY'' 1) [closed_trade 4 ''INFY'' (- 1), closed_trade 5 ''TCS'' (- 2)]
   = closed_trade 3 ''INFY'' 1"
  "py_min (closed_trade 3 ''INFY'' 1) [closed_trade 4 ''INFY'' (- 1), closed_trade 5 ''TCS'' (- 2)]
   = closed_trade 5 ''TCS'' (- 2)"
  by (simp_all add: py_max_def py_min_def)

lemma ledger_report_returned: "get_portfolio_analytics ledger 7 2 (Inr ledger_report)"
  by (simp add: ledger_returns report_of_def ledger_best summary_def round2_def
        ledger_report_def)
     (simp add: closed_trade_def)

theorem analytics_win_loss_witness:
  "\<exists>a. get_portfolio_analytics ledger 7 2 (Inr a) \<and> total_trades a = 3 \<and> total_wins a = 1
       \<and> total_losses a = 2 \<and> win_rate a = 3333 / 100"
proof -
  note w = analytics_win_loss [OF ledger_owner ledger_closed]
  from w obtain a where r: "get_portfolio_analytics ledger 7 2 (Inr a)" by blast
  with w have "total_trades a = 3" "total_wins a = 1" "total_losses a = 2"
    and "round2 (real (total_wins a) / real (total_trades a) * 100) (win_rate a)"
    by (auto simp only: ledger_counts)
  then have n: "total_trades a = 3" "total_wins a = 1" "total_losses a = 2"
    and "round2 (100 / 3) (win_rate a)"
    by simp_all
  moreover have "round2 (100 / 3) (3333 / 100)" "\<bar>3333 / 100 - 100 / 3\<bar> < (1 / 200 :: real)"
    by (simp_all add: round2_def)
  ultimately have "win_rate a = 3333 / 100" using round2_unique by blast
  with r n show ?thesis by blast
qed

text \<open>
  The claim as the specification words it gives the win rate unrounded. The second
  portfolio of the ledger has one winner and two losers among its closed trades: the
  report has the win rate 33.33, and the report with the unrounded ratio in its place
  is not one the analytics return.
\<close>

theorem analytics_win_rate_is_rounded:
  "get_portfolio_analytics ledger 7 2 (Inr ledger_report)
   \<and> total_wins ledger_report = 1 \<and> total_losses ledger_report = 2
   \<and> total_trades ledger_report = 3 \<and> win_rate ledger_report = 3333 / 100
   \<and> \<not> get_portfolio_analytics ledger 7 2
         (Inr (ledger_report\<lparr>win_rate := real (total_wins ledger_report)
                                          / real (total_trades ledger_report) * 100\<rparr>))"
proof -
  have "\<not> round2 (100 / 3) (100 / 3)" by (simp add: round2_def)
  then have "\<not> get_portfolio_analytics ledger 7 2
         (Inr (ledger_report\<lparr>win_rate := real (total_wins ledger_report)
                                          / real (total_trades ledger_report) * 100\<rparr>))"
    by (simp add: ledger_returns report_of_def ledger_report_def)
  then show ?thesis
    using ledger_report_returned by (simp add: ledger_report_def)
qed

theorem analytics_profit_factor_witness:
  "\<exists>a. get_portfolio_analytics ledger 7 2 (Inr a) \<and> profit_factor a = 33 / 100"
proof -
  note w = analytics_profit_factor [OF ledger_owner ledger_closed]
  from w obtain a where r: "get_portfolio_analytics ledger 7 2 (Inr a)" by blast
  with w have "if \<bar>- 3 :: real\<bar> = 0 then profit_factor a = 0
               else round2 (1 / \<bar>- 3\<bar>) (profit_factor a)"
    by (auto simp only: ledger_sums)
  then have "round2 (1 / 3) (profit_factor a)" by simp
  moreover have "round2 (1 / 3) (33 / 100)" "\<bar>33 / 100 - 1 / 3\<bar> < (1 / 200 :: real)"
    by (simp_all add: round2_def)
  ultimately have "profit_factor a = 33 / 100" using round2_unique by blast
  with r show ?thesis by blast
qed

text \<open>
  The claim as the specification words it gives the profit factor unrounded. In the
  second portfolio of the ledger the winner's \<open>profit_loss\<close> is 1 and the losers' sum
  to -3: the report has the profit factor 0.33, and the report with the unrounded
  quotient in its place is not one the analytics return.
\<close>

theorem analytics_profit_factor_is_rounded:
  "get_portfolio_analytics ledger 7 2 (Inr ledger_report)
   \<and> profit_factor ledger_report = 33 / 100
   \<and> \<not> get_portfolio_analytics ledger 7 2 (Inr (ledger_report\<lparr>profit_factor := 1 / \<bar>- 3\<bar>\<rparr>))"
proof -
  have "\<not> round2 (1 / 3) (1 / 3)" by (simp add: round2_def)
  then have "\<not> get_portfolio_analytics ledger 7 2
               (Inr (ledger_report\<lparr>profit_factor := 1 / \<bar>- 3\<bar>\<rparr>))"
    by (simp add: ledger_returns report_of_def ledger_report_def)
  then show ?thesis
    using ledger_report_returned by (simp add: ledger_report_def)
qed

section \<open>The per-symbol breakdown\<close>

lemma modify_absent: "k \<notin> fst ` set ps \<Longrightarrow> modify k f (ps @ [(k, v)]) = ps @ [(k, f v)]"
  by (induction ps) auto

lemma totals_modify:
  "k \<in> fst ` set ps \<Longrightarrow> (\<And>g. g_total_trades (f g) = Suc (g_total_trades g)) \<Longrightarrow>
   totals (modify k f ps) = Suc (totals ps)"
  by (induction ps) (auto simp: totals_def)

lemma set_modify:
  "set (modify k f ps) \<subseteq> set ps \<union> {(k, f g) | g. (k, g) \<in> set ps}"
  by (induction ps) auto

lemma bump_fields:
  "g_total_trades (bump t g) = Suc (g_total_trades g)" "g_symbol (bump t g) = g_symbol g"
  by (simp_all add: bump_def Let_def)

lemma count_trade_bump:
  "count_trade t stats =
     (if symbol t \<notin> fst ` set stats
      then stats @ [(symbol t, bump t \<lparr> g_symbol = symbol t, g_total_trades = 0,
                                       g_total_profit_loss = 0, g_wins = 0, g_losses = 0,
                                       g_win_rate = None \<rparr>)]
      else modify (symbol t) (bump t) stats)"
  unfolding count_trade_def Let_def bump_def [symmetric, unfolded Let_def]
  by (simp add: modify_absent)

lemma totals_count_trade: "totals (count_trade t stats) = Suc (totals stats)"
  by (simp add: count_trade_bump totals_modify bump_fields) (simp add: totals_def bump_fields)

lemma totals_fold: "totals (fold count_trade ts stats) = totals stats + length ts"
  by (induction ts arbitrary: stats) (simp_all add: totals_count_trade)

lemma groups_ok_count_trade:
  assumes "groups_ok S stats" and "symbol t \<in> S"
  shows "groups_ok S (count_trade t stats)"
proof (cases "symbol t \<in> fst ` set stats")
  case False
  with assms show ?thesis
    by (auto simp: count_trade_bump groups_ok_def bump_fields)
next
  case True
  have "\<forall>p \<in> set (modify (symbol t) (bump t) stats).
          1 \<le> g_total_trades (snd p) \<and> g_symbol (snd p) \<in> S"
  proof
    fix p assume "p \<in> set (modify (symbol t) (bump t) stats)"
    with set_modify [of "symbol t" "bump t" stats]
    consider "p \<in> set stats" | g where "p = (symbol t, bump t g)" "(symbol t, g) \<in> set stats"
      by auto
    then show "1 \<le> g_total_trades (snd p) \<and> g_symbol (snd p) \<in> S"
    proof cases
      case 1
      with assms(1) show ?thesis by (auto simp: groups_ok_def)
    next
      case 2
      with assms(1) show ?thesis by (force simp: groups_ok_def bump_fields)
    qed
  qed
  with True show ?thesis by (simp add: count_trade_bump groups_ok_def)
qed

lemma groups_ok_fold:
  "groups_ok S stats \<Longrightarrow> symbol ` set ts \<subseteq> S \<Longrightarrow> groups_ok S (fold count_trade ts stats)"
  by (induction ts arbitrary: stats) (auto simp: groups_ok_count_trade)

lemma finish_group_nearest: "finish_group g (nearest_group g)"
  by (simp add: finish_group_def nearest_group_def round2_nearest2)

lemma symbol_statistics_exists:
  "symbol_statistics ts (map (\<lambda>p. nearest_group (snd p)) (fold count_trade ts []))"
  by (simp add: symbol_statistics_def list_all2_map1 list_all2_map2 finish_group_nearest
        list_all2_same)

lemma symbol_statistics_sum:
  assumes "symbol_statistics ts gs"
  shows "sum_list (map g_total_trades gs) = length ts"
proof -
  from assms have "list_all2 (\<lambda>p g. g_total_trades g = g_total_trades (snd p))
                     (fold count_trade ts []) gs"
    by (auto simp: symbol_statistics_def list_all2_map1 finish_group_def
          elim!: list_all2_mono)
  then have "map g_total_trades gs = map (\<lambda>p. g_total_trades (snd p)) (fold count_trade ts [])"
    by (induction rule: list_all2_induct) auto
  then have "sum_list (map g_total_trades gs) = totals (fold count_trade ts [])"
    by (simp add: totals_def)
  also have "\<dots> = length ts" using totals_fold [of ts "[]"] by (simp add: totals_def)
  finally show ?thesis .
qed

lemma list_all2_source:
  "list_all2 P xs ys \<Longrightarrow> y \<in> set ys \<Longrightarrow> \<exists>x \<in> set xs. P x y"
  by (induction rule: list_all2_induct) auto

lemma symbol_statistics_groups:
  assumes "symbol_statistics ts gs" and "g \<in> set gs"
  shows "1 \<le> g_total_trades g \<and> g_symbol g \<in> symbol ` set ts"
proof -
  from assms(1) have "list_all2 (\<lambda>p g. finish_group (snd p) g) (fold count_trade ts []) gs"
    by (simp add: symbol_statistics_def list_all2_map1)
  from list_all2_source [OF this assms(2)]
  obtain p where p: "p \<in> set (fold count_trade ts [])" "finish_group (snd p) g"
    by blast
  have "groups_ok (symbol ` set ts) (fold count_trade ts [])"
    by (rule groups_ok_fold) (simp_all add: groups_ok_def)
  with p show ?thesis by (auto simp: groups_ok_def finish_group_def)
qed

lemma closed_symbols:
  "symbol ` set (select_closed_trades d pid)
   = symbol ` {t \<in> set (trades d). portfolio_id t = pid \<and> status t = Some CLOSED}"
  by (simp add: select_closed_trades_def)

lemma by_symbol_groups:
  assumes "verify_portfolio_ownership d pid uid = Inr p"
  shows "(\<exists>gs. get_analytics_by_symbol d uid pid (Inr gs))
       \<and> (\<forall>r. get_analytics_by_symbol d uid pid r \<longrightarrow>
             (\<exists>gs. r = Inr gs
                \<and> (\<forall>g \<in> set gs. 1 \<le> g_total_trades g
                       \<and> g_symbol g \<in> symbol ` {t \<in> set (trades d).
                                                  portfolio_id t = pid \<and> status t = Some CLOSED})
                \<and> sum_list (map g_total_trades gs)
                    = length (filter (\<lambda>t. portfolio_id t = pid \<and> status t = Some CLOSED)
                                (trades d))))"
proof (intro conjI allI impI)
  show "\<exists>gs. get_analytics_by_symbol d uid pid (Inr gs)"
    using symbol_statistics_exists [of "select_closed_trades d pid"]
    by (auto simp: get_analytics_by_symbol_def assms)
next
  fix r
  assume "get_analytics_by_symbol d uid pid r"
  then obtain gs where gs: "r = Inr gs" "symbol_statistics (select_closed_trades d pid) gs"
    by (auto simp: get_analytics_by_symbol_def assms split: sum.splits)
  have "\<forall>g \<in> set gs. 1 \<le> g_total_trades g
          \<and> g_symbol g \<in> symbol ` {t \<in> set (trades d).
                                     portfolio_id t = pid \<and> status t = Some CLOSED}"
    using symbol_statistics_groups [OF gs(2)] by (simp only: closed_symbols) blast
  moreover have "sum_list (map g_total_trades gs)
        = length (filter (\<lambda>t. portfolio_id t = pid \<and> status t = Some CLOSED) (trades d))"
    using symbol_statistics_sum [OF gs(2)] by (simp add: select_closed_trades_def)
  ultimately show "\<exists>gs. r = Inr gs
                \<and> (\<forall>g \<in> set gs. 1 \<le> g_total_trades g
                       \<and> g_symbol g \<in> symbol ` {t \<in> set (trades d).
                                                  portfolio_id t = pid \<and> status t = Some CLOSED})
                \<and> sum_list (map g_total_trades gs)
                    = length (filter (\<lambda>t. portfolio_id t = pid \<and> status t = Some CLOSED)
                                (trades d))"
    using gs(1) by blast
qed

lemma aggregate_total:
  assumes "get_portfolio_analytics d uid pid (Inr a)"
  shows "total_trades a
         = length (filter (\<lambda>t. portfolio_id t = pid \<and> status t = Some CLOSED) (trades d))"
  using assms portfolio_statistics_total
  by (auto simp: get_portfolio_analytics_def select_closed_trades_def split: sum.splits)

lemma journal_status_closed_value:
  "journal_status_closed = store journal (trade_reliance\<lparr>status := Some CLOSED\<rparr>)"
  by (simp add: journal_status_closed_def run_def route_update_trade_def get_trade_by_id_def
        update_trade_def verify_portfolio_ownership_def get_portfolio_by_id_def journal_def
        portfolio_swing_def trade_reliance_def setattrs_def load_def no_change_def
        field_value_def commit_def flush_def Let_def)

lemma journal_status_closed_select:
  "select_closed_trades journal_status_closed 1 = [trade_reliance\<lparr>status := Some CLOSED\<rparr>]"
  by (simp add: journal_status_closed_value select_closed_trades_def store_def journal_def
        trade_reliance_def trade_free_def closed_trade_def)

lemma journal_status_closed_owner:
  "verify_portfolio_ownership journal_status_closed 1 7 = Inr portfolio_swing"
  by (simp add: journal_status_closed_value verify_portfolio_ownership_def
        get_portfolio_by_id_def store_def journal_def portfolio_swing_def)

text \<open>
  Claim C8. The breakdown does what the claim says of it: every group it returns counts
  at least one trade and carries the symbol of a closed trade of the portfolio, and the
  groups' \<open>total_trades\<close> add up to the number of the portfolio's closed trades
  (\<open>by_symbol_groups\<close>), which is the \<open>total_trades\<close> of the aggregate analytics
  whenever they return (\<open>aggregate_total\<close>). They do not return for every portfolio.
  After the edit that sets the status of the first trade of the example journal to
  CLOSED, the first portfolio has one closed trade, without \<open>profit_loss\<close>: the
  breakdown returns one group that counts one trade, and the aggregate analytics raise
  \<^verbatim>\<open>TypeError\<close> and nothing else (\<open>aggregate_only_raises\<close>), where \<^verbatim>\<open>sum(t.profit_loss for t in losing_trades)\<close> lacks the
  \<^verbatim>\<open>or 0\<close> that the breakdown and the aggregate's own total and filters have.
\<close>

theorem breakdown_without_aggregate:
  "get_analytics_by_symbol journal_status_closed 7 1 (Inr [reliance_group])
   \<and> g_total_trades reliance_group = 1
   \<and> get_portfolio_analytics journal_status_closed 7 1 (Inl TypeError)"
proof -
  have pn: "profit_loss (trade_reliance\<lparr>status := Some CLOSED\<rparr>) = None"
    by (simp add: trade_reliance_def)
  have "portfolio_statistics 1 (name portfolio_swing)
          [trade_reliance\<lparr>status := Some CLOSED\<rparr>] (Inl TypeError)"
    using portfolio_statistics_null [OF _ pn, of "[trade_reliance\<lparr>status := Some CLOSED\<rparr>]"]
    by simp
  then have a: "get_portfolio_analytics journal_status_closed 7 1 (Inl TypeError)"
    by (simp add: get_portfolio_analytics_def journal_status_closed_owner
          journal_status_closed_select del: One_nat_def)
  have "symbol_statistics [trade_reliance\<lparr>status := Some CLOSED\<rparr>] [reliance_group]"
    by (simp add: symbol_statistics_def count_trade_def Let_def finish_group_def
          reliance_group_def pl_or_0_def round2_def trade_reliance_def)
  then have b: "get_analytics_by_symbol journal_status_closed 7 1 (Inr [reliance_group])"
    by (simp add: get_analytics_by_symbol_def journal_status_closed_owner
          journal_status_closed_select del: One_nat_def)
  from a b show ?thesis by (simp add: reliance_group_def)
qed

lemma aggregate_only_raises:
  "get_portfolio_analytics journal_status_closed 7 1 r = (r = Inl TypeError)"
proof -
  have pn: "profit_loss (trade_reliance\<lparr>status := Some CLOSED\<rparr>) = None"
    by (simp add: trade_reliance_def)
  have "portfolio_statistics 1 (name portfolio_swing)
          [trade_reliance\<lparr>status := Some CLOSED\<rparr>] r = (r = Inl TypeError)"
    using portfolio_statistics_null [OF _ pn, of "[trade_reliance\<lparr>status := Some CLOSED\<rparr>]"]
    by simp
  then show ?thesis
    by (simp add: get_portfolio_analytics_def journal_status_closed_owner
          journal_status_closed_select del: One_nat_def)
qed

lemma ledger_groups_returned: "get_analytics_by_symbol ledger 7 2 (Inr ledger_groups)"
  by (simp add: get_analytics_by_symbol_def ledger_owner ledger_closed_trades
        symbol_statistics_def count_trade_def Let_def finish_group_def ledger_groups_def
        round2_def)
     (simp add: closed_trade_def)

section \<open>The ids of a table\<close>

lemma sorted_wrt_filter_ids:
  "sorted_wrt (<) (map id_trade rows) \<Longrightarrow> sorted_wrt (<) (map id_trade (filter P rows))"
  by (induction rows) auto

lemma fold_max_ge: "x \<in> set xs \<Longrightarrow> x \<le> fold max xs (a::nat)"
proof -
  assume "x \<in> set xs"
  then have "x \<le> Max (set (a # xs))" by simp
  then show ?thesis by (simp only: Max.set_eq_fold)
qed

lemma next_id_fresh: "t \<in> set rows \<Longrightarrow> id_trade t < next_id rows"
  using fold_max_ge [of "id_trade t" "map id_trade rows" 0] by (simp add: next_id_def)

lemma create_trade_ids: "ids_ascending d \<Longrightarrow> ids_ascending (snd (create_trade d c))"
  by (auto simp: ids_ascending_def create_trade_def Let_def sorted_wrt_append next_id_fresh)

lemma store_keeps_ids: "map id_trade (trades (store d t)) = map id_trade (trades d)"
  by (auto simp: store_def)

lemma store_ids: "ids_ascending d \<Longrightarrow> ids_ascending (store d t)"
  by (simp only: ids_ascending_def store_keeps_ids)

lemma commit_ids: "ids_ascending d \<Longrightarrow> ids_ascending (snd (commit d ob))"
  by (auto simp: commit_def store_ids split: sum.splits)

lemma update_trade_ids: "ids_ascending d \<Longrightarrow> ids_ascending (snd (update_trade d k u))"
  by (auto simp: update_trade_def Let_def commit_ids split: option.splits sum.splits prod.splits)

lemma close_trade_ids: "ids_ascending d \<Longrightarrow> ids_ascending (snd (close_trade d k tc))"
  by (auto simp: close_trade_def Let_def commit_ids split: option.splits sum.splits prod.splits)

lemma delete_trade_ids: "ids_ascending d \<Longrightarrow> ids_ascending (snd (delete_trade d k))"
  by (auto simp: delete_trade_def ids_ascending_def sorted_wrt_filter_ids split: option.splits)

lemma handle_ids: "ids_ascending d \<Longrightarrow> ids_ascending (handle d r)"
proof (cases r)
  case (Create uid c)
  assume "ids_ascending d"
  with Create create_trade_ids [of d c] show ?thesis
    by (auto simp: route_create_trade_def split: sum.splits prod.splits)
next
  case (Edit uid k u)
  assume "ids_ascending d"
  with Edit update_trade_ids [of d k u] show ?thesis
    by (auto simp: route_update_trade_def split: sum.splits option.splits)
next
  case (Close uid k tc)
  assume "ids_ascending d"
  with Close close_trade_ids [of d k tc] show ?thesis
    by (auto simp: route_close_trade_def split: sum.splits option.splits)
next
  case (Delete uid k)
  assume "ids_ascending d"
  with Delete delete_trade_ids [of d k] show ?thesis
    by (auto simp: route_delete_trade_def split: sum.splits option.splits)
qed

lemma run_ids: "ids_ascending d \<Longrightarrow> ids_ascending (run d rs)"
  unfolding run_def by (induction rs arbitrary: d) (auto simp: handle_ids)

section \<open>The listing of a portfolio's trades\<close>

lemma selected_rows:
  "(case st of Some s \<Rightarrow> filter (\<lambda>t. status t = Some s) (filter (\<lambda>t. portfolio_id t = pid) rows)
      | None \<Rightarrow> filter (\<lambda>t. portfolio_id t = pid) rows)
   = filter (\<lambda>t. portfolio_id t = pid \<and> (st = None \<or> status t = st)) rows"
  by (cases st) (auto intro: filter_cong)

lemma order_by_mset: "mset (order_by_entry_date_desc rows) = mset rows"
  by (simp add: order_by_entry_date_desc_def)

lemma order_by_sorted:
  "sorted_wrt (\<lambda>a b. entry_date b \<le> entry_date a) (order_by_entry_date_desc rows)"
proof -
  have "sorted (map (\<lambda>t. - entry_date t) (sort_key (\<lambda>t. - entry_date t) rows))"
    by (rule sorted_sort_key)
  then show ?thesis by (simp add: order_by_entry_date_desc_def sorted_map)
qed

lemma order_by_ties:
  "filter (\<lambda>t. entry_date t = k) (order_by_entry_date_desc rows)
   = filter (\<lambda>t. entry_date t = k) rows"
  using sort_key_stable [of "\<lambda>t. - entry_date t" "- k" rows]
  by (simp add: order_by_entry_date_desc_def)

text \<open>
  Claim C9. The listing returns exactly the rows of the trades table whose
  \<open>portfolio_id\<close> is the given one and, when a status is given, whose status is that
  one, each as often as it is stored; the entry dates descend along the result; and the
  trades with one and the same entry date come in the order they have in the table,
  which is the order of insertion, so by ascending id when the table's ids ascend (as
  they do in every table built by requests, \<open>run_ids\<close>).
\<close>

theorem get_portfolio_trades_ordered:
  "mset (get_portfolio_trades d pid st)
     = mset (filter (\<lambda>t. portfolio_id t = pid \<and> (st = None \<or> status t = st)) (trades d))
   \<and> sorted_wrt (\<lambda>a b. entry_date b \<le> entry_date a) (get_portfolio_trades d pid st)
   \<and> (\<forall>k. filter (\<lambda>t. entry_date t = k) (get_portfolio_trades d pid st)
            = filter (\<lambda>t. entry_date t = k)
                (filter (\<lambda>t. portfolio_id t = pid \<and> (st = None \<or> status t = st)) (trades d)))
   \<and> (sorted_wrt (<) (map id_trade (trades d)) \<longrightarrow>
        (\<forall>k. sorted_wrt (<)
               (map id_trade (filter (\<lambda>t. entry_date t = k) (get_portfolio_trades d pid st)))))"
  by (simp add: get_portfolio_trades_def Let_def selected_rows order_by_mset order_by_sorted
        order_by_ties sorted_wrt_filter_ids)

lemma journal_listing:
  "get_portfolio_trades journal 1 None = [trade_reliance, trade_free]"
proof -
  have sel: "filter (\<lambda>t. portfolio_id t = 1) (trades journal) = [trade_reliance, trade_free]"
    by (simp add: journal_def trade_reliance_def trade_free_def closed_trade_def)
  show ?thesis
    by (simp add: get_portfolio_trades_def sel order_by_entry_date_desc_def del: One_nat_def)
       (simp add: trade_reliance_def trade_free_def)
qed

lemma journal_late_open:
  "filter (\<lambda>t. portfolio_id t = 1 \<and> (Some OPEN = None \<or> status t = Some OPEN))
     (trades journal_late) = [trade_reliance, trade_free, trade_late]"
  by (simp add: journal_late_def journal_def trade_late_def trade_reliance_def trade_free_def
        closed_trade_def)

lemma journal_late_ids: "sorted_wrt (<) (map id_trade (trades journal_late))"
  by (simp add: journal_late_def journal_def trade_late_def trade_reliance_def trade_free_def
        closed_trade_def)

theorem get_portfolio_trades_ordered_witness:
  "get_portfolio_trades journal_late 1 (Some OPEN) = [trade_late, trade_reliance, trade_free]
   \<and> mset (get_portfolio_trades journal_late 1 (Some OPEN))
       = {#trade_reliance, trade_free, trade_late#}
   \<and> sorted_wrt (\<lambda>a b. entry_date b \<le> entry_date a)
        (get_portfolio_trades journal_late 1 (Some OPEN))
   \<and> filter (\<lambda>t. entry_date t = 5) (get_portfolio_trades journal_late 1 (Some OPEN))
       = [trade_reliance, trade_free]
   \<and> sorted_wrt (<)
        (map id_trade
           (filter (\<lambda>t. entry_date t = 5) (get_portfolio_trades journal_late 1 (Some OPEN))))"
proof -
  note w = get_portfolio_trades_ordered [of journal_late 1 "Some OPEN"]
  have m: "mset (get_portfolio_trades journal_late 1 (Some OPEN))
             = {#trade_reliance, trade_free, trade_late#}"
    using w journal_late_open by (simp only: mset.simps)
  have s: "sorted_wrt (\<lambda>a b. entry_date b \<le> entry_date a)
             (get_portfolio_trades journal_late 1 (Some OPEN))"
    using w by blast
  have "filter (\<lambda>t. entry_date t = 5) (get_portfolio_trades journal_late 1 (Some OPEN))
        = filter (\<lambda>t. entry_date t = 5) [trade_reliance, trade_free, trade_late]"
    using w journal_late_open by (simp only:)
  then have t: "filter (\<lambda>t. entry_date t = 5) (get_portfolio_trades journal_late 1 (Some OPEN))
        = [trade_reliance, trade_free]"
    by (simp add: trade_late_def trade_reliance_def trade_free_def)
  have i: "sorted_wrt (<)
        (map id_trade
           (filter (\<lambda>t. entry_date t = 5) (get_portfolio_trades journal_late 1 (Some OPEN))))"
    using w journal_late_ids by blast
  have sel: "filter (\<lambda>t. status t = Some OPEN)
               (filter (\<lambda>t. portfolio_id t = 1) (trades journal_late))
             = [trade_reliance, trade_free, trade_late]"
    by (simp add: journal_late_def journal_def trade_late_def trade_reliance_def
          trade_free_def closed_trade_def)
  have e: "get_portfolio_trades journal_late 1 (Some OPEN)
           = [trade_late, trade_reliance, trade_free]"
    unfolding get_portfolio_trades_def Let_def option.case sel order_by_entry_date_desc_def
    by (simp add: trade_late_def trade_reliance_def trade_free_def)
  from e m s t i show ?thesis by blast
qed


section \<open>Deleting a portfolio\<close>

lemma find_filter_None: "find (\<lambda>p. id_portfolio p = k) (filter (\<lambda>p. id_portfolio p \<noteq> k) ps) = None"
  by (simp add: find_None_iff)

lemma get_portfolio_by_id_Some: "get_portfolio_by_id d k = Some p \<Longrightarrow> id_portfolio p = k"
  by (auto simp: get_portfolio_by_id_def find_Some_iff)

text \<open>
  Claim C6. Deleting a portfolio that does not exist returns \<open>False\<close> and changes
  nothing. Deleting one that exists returns \<open>True\<close> and, in the one commit, removes the
  portfolio and every trade whose \<open>portfolio_id\<close> is its id, keeping every other
  portfolio and trade; afterwards the portfolio is not found, the listing of its trades
  is empty, and the listing request answers HTTP 404.
\<close>

theorem delete_portfolio_cascades:
  "(get_portfolio_by_id d pid = None \<longrightarrow> delete_portfolio d pid = (False, d))
       \<and> (get_portfolio_by_id d pid \<noteq> None \<longrightarrow>
            fst (delete_portfolio d pid) = True
            \<and> get_portfolio_by_id (snd (delete_portfolio d pid)) pid = None
            \<and> trades (snd (delete_portfolio d pid))
                = filter (\<lambda>t. portfolio_id t \<noteq> pid) (trades d)
            \<and> portfolios (snd (delete_portfolio d pid))
                = filter (\<lambda>p. id_portfolio p \<noteq> pid) (portfolios d)
            \<and> get_portfolio_trades (snd (delete_portfolio d pid)) pid st = []
            \<and> route_get_portfolio_trades (snd (delete_portfolio d pid)) uid pid st
                = Inl HTTP_404_NOT_FOUND)"
proof (intro conjI impI)
  assume "get_portfolio_by_id d pid = None"
  then show "delete_portfolio d pid = (False, d)" by (simp add: delete_portfolio_def)
next
  assume "get_portfolio_by_id d pid \<noteq> None"
  then obtain p where p: "get_portfolio_by_id d pid = Some p" by auto
  then have k: "id_portfolio p = pid" by (rule get_portfolio_by_id_Some)
  let ?d = "snd (delete_portfolio d pid)"
  show "fst (delete_portfolio d pid) = True" using p by (simp add: delete_portfolio_def)
  show t: "trades ?d = filter (\<lambda>t. portfolio_id t \<noteq> pid) (trades d)"
    using p k by (simp add: delete_portfolio_def)
  show "portfolios ?d = filter (\<lambda>p. id_portfolio p \<noteq> pid) (portfolios d)"
    using p k by (simp add: delete_portfolio_def)
  then show gone: "get_portfolio_by_id ?d pid = None"
    by (simp add: get_portfolio_by_id_def find_filter_None)
  have "filter (\<lambda>t. portfolio_id t = pid) (trades ?d) = []"
    by (simp add: t filter_empty_conv)
  then show "get_portfolio_trades ?d pid st = []"
    by (cases st) (simp_all add: get_portfolio_trades_def order_by_entry_date_desc_def)
  show "route_get_portfolio_trades ?d uid pid st = Inl HTTP_404_NOT_FOUND"
    using gone by (simp add: route_get_portfolio_trades_def verify_portfolio_ownership_def)
qed

theorem delete_portfolio_cascades_witness:
  "delete_portfolio journal 1
     = (True, \<lparr> portfolios = [portfolio_intraday],
                trades = [closed_trade 3 ''INFY'' 1, closed_trade 4 ''INFY'' (- 1),
                          closed_trade 5 ''TCS'' (- 2)] \<rparr>)
   \<and> get_portfolio_trades (snd (delete_portfolio journal 1)) 1 None = []
   \<and> delete_portfolio journal 9 = (False, journal)"
proof -
  have a: "get_portfolio_by_id journal 1 \<noteq> None" "get_portfolio_by_id journal 9 = None"
    by (simp_all add: get_portfolio_by_id_def journal_def portfolio_swing_def
          portfolio_intraday_def)
  note w = delete_portfolio_cascades [of journal 1 None 7]
  note v = delete_portfolio_cascades [of journal 9 None 7]
  have t: "filter (\<lambda>t. portfolio_id t \<noteq> 1) (trades journal)
           = [closed_trade 3 ''INFY'' 1, closed_trade 4 ''INFY'' (- 1),
              closed_trade 5 ''TCS'' (- 2)]"
    by (simp add: journal_def trade_reliance_def trade_free_def closed_trade_def)
  have q: "filter (\<lambda>p. id_portfolio p \<noteq> 1) (portfolios journal) = [portfolio_intraday]"
    by (simp add: journal_def portfolio_swing_def portfolio_intraday_def)
  from w a(1) have
    "fst (delete_portfolio journal 1) = True"
    "trades (snd (delete_portfolio journal 1)) = filter (\<lambda>t. portfolio_id t \<noteq> 1) (trades journal)"
    "portfolios (snd (delete_portfolio journal 1)) = filter (\<lambda>p. id_portfolio p \<noteq> 1) (portfolios journal)"
    "get_portfolio_trades (snd (delete_portfolio journal 1)) 1 None = []"
    by blast+
  moreover from v a(2) have "delete_portfolio journal 9 = (False, journal)" by blast
  ultimately show ?thesis
    by (cases "delete_portfolio journal 1") (simp add: t q del: One_nat_def)
qed


end
